theory Spec2Isabelle
  imports Main
begin

section \<open>Tutorial 04: running rllab experiments\<close>

text \<open>
  The notebook \<^verbatim>\<open>tutorials/tutorial04_rllab.ipynb\<close> assembles parameter objects and
  hands them to libraries whose code is not part of it (the traffic simulator's
  parameter classes, the environment registry, the rllab optimizer and launcher).
  What the notebook itself does is: bind global names, and call into those libraries
  with given arguments, in a given order. The model keeps exactly that: a store of
  global names and a trace of the library calls made, each with the answer it got.
  A library is a parameter of the model: any function from a call and the state of the
  outside world to an answer (a value or a raised exception) and a new world.
\<close>

subsection \<open>Python values\<close>

text \<open>
  \<open>PFloat\<close> holds a float literal as written in the source (no arithmetic is done on
  floats by the notebook). \<open>PName\<close> is a name bound by an import statement (a class, a
  function or a module of a library), \<open>PFun\<close> a function defined by the notebook,
  \<open>PObj\<close> an object of a library class, known by its identity only.
\<close>

datatype pyval =
    PNone
  | PBool bool
  | PInt int
  | PFloat string
  | PStr string
  | PTuple "pyval list"
  | PList "pyval list"
  | PDict "(string \<times> pyval) list"
  | PName string
  | PFun string
  | PObj nat

datatype exn = NameError string | LibError string

subsection \<open>Library calls, traces and the interpreter state\<close>

text \<open>
  \<open>Call f args kwargs\<close> is \<^verbatim>\<open>f(*args, **kwargs)\<close> for an imported \<open>f\<close>,
  \<open>Method obj m args kwargs\<close> is \<^verbatim>\<open>obj.m(*args, **kwargs)\<close>, and
  \<open>GetAttr obj a\<close> is the attribute read \<^verbatim>\<open>obj.a\<close> on a library object.
\<close>

datatype call =
    Call string "pyval list" "(string \<times> pyval) list"
  | Method pyval string "pyval list" "(string \<times> pyval) list"
  | GetAttr pyval string

type_synonym event = "call \<times> (exn + pyval)"

type_synonym 'w lib = "call \<Rightarrow> 'w \<Rightarrow> (exn + pyval) \<times> 'w"

record 'w state =
  globals :: "string \<rightharpoonup> pyval"
  world :: 'w
  trace :: "event list"

type_synonym ('w, 'a) py = "'w state \<Rightarrow> (exn + 'a) \<times> 'w state"

definition py_return :: "'a \<Rightarrow> ('w, 'a) py" where
  "py_return x s = (Inr x, s)"

definition py_bind :: "('w, 'a) py \<Rightarrow> ('a \<Rightarrow> ('w, 'b) py) \<Rightarrow> ('w, 'b) py" where
  "py_bind m f s = (case m s of (Inl e, s') \<Rightarrow> (Inl e, s') | (Inr x, s') \<Rightarrow> f x s')"

text \<open>Reading a global name that is not bound raises \<open>NameError\<close>.\<close>

definition load :: "string \<Rightarrow> ('w, pyval) py" where
  "load n s = (case globals s n of None \<Rightarrow> (Inl (NameError n), s) | Some v \<Rightarrow> (Inr v, s))"

definition store :: "string \<Rightarrow> pyval \<Rightarrow> ('w, unit) py" where
  "store n v s = (Inr (), s\<lparr>globals := (globals s)(n \<mapsto> v)\<rparr>)"

text \<open>A library call: the library answers, the world moves on, the trace grows.\<close>

definition extern :: "'w lib \<Rightarrow> call \<Rightarrow> ('w, pyval) py" where
  "extern lib c s =
     (case lib c (world s) of
        (r, w') \<Rightarrow> (r, s\<lparr>world := w', trace := trace s @ [(c, r)]\<rparr>))"

definition fresh :: "(string \<rightharpoonup> pyval) \<Rightarrow> 'w \<Rightarrow> 'w state" where
  "fresh g w = \<lparr>globals = g, world = w, trace = []\<rparr>"

text \<open>\<open>n = e\<close> at the top level of a cell: evaluate, then bind the global name.\<close>

definition assign :: "string \<Rightarrow> ('w, pyval) py \<Rightarrow> ('w, unit) py" where
  "assign n m = py_bind m (store n)"

text \<open>Cells run one after the other; an exception in a cell stops the run.\<close>

fun run_cells :: "('w, unit) py list \<Rightarrow> ('w, unit) py" where
  "run_cells [] s = (Inr (), s)"
| "run_cells (c # cs) s =
     (case c s of (Inl e, s') \<Rightarrow> (Inl e, s') | (Inr u, s') \<Rightarrow> run_cells cs s')"

subsection \<open>Sections 2 and 3 of the notebook: scenario and environment parameters\<close>

text \<open>
  Import statements bind library names; a name so bound is written \<open>PName\<close>. The one
  imported value that is data, \<^verbatim>\<open>ADDITIONAL_NET_PARAMS\<close> of
  \<^verbatim>\<open>flow.scenarios.loop\<close>, is not defined by the notebook and is a parameter here.
  \<^verbatim>\<open>
  name = "training_example"
  net_params = NetParams(additional_params=ADDITIONAL_NET_PARAMS)
  initial_config = InitialConfig(spacing="uniform", perturbation=1)
  traffic_lights = TrafficLightParams()
  \<close>
\<close>

definition cell_scenario_params :: "'w lib \<Rightarrow> pyval \<Rightarrow> ('w, unit) py" where
  "cell_scenario_params lib ADDITIONAL_NET_PARAMS =
     py_bind (store ''name'' (PStr ''training_example'')) (\<lambda>u.
     py_bind (assign ''net_params'' (extern lib (Call ''NetParams'' []
                [(''additional_params'', ADDITIONAL_NET_PARAMS)]))) (\<lambda>u.
     py_bind (assign ''initial_config'' (extern lib (Call ''InitialConfig'' []
                [(''spacing'', PStr ''uniform''), (''perturbation'', PInt 1)]))) (\<lambda>u.
     assign ''traffic_lights'' (extern lib (Call ''TrafficLightParams'' [] [])))))"

text \<open>
  \<^verbatim>\<open>
  vehicles = VehicleParams()
  vehicles.add("human",
               acceleration_controller=(IDMController, {}),
               routing_controller=(ContinuousRouter, {}),
               num_vehicles=21)
  \<close>
\<close>

definition cell_human_vehicles :: "'w lib \<Rightarrow> ('w, unit) py" where
  "cell_human_vehicles lib =
     py_bind (assign ''vehicles'' (extern lib (Call ''VehicleParams'' [] []))) (\<lambda>u.
     py_bind (load ''vehicles'') (\<lambda>vehicles.
     py_bind (extern lib (Method vehicles ''add'' [PStr ''human'']
                [(''acceleration_controller'', PTuple [PName ''IDMController'', PDict []]),
                 (''routing_controller'', PTuple [PName ''ContinuousRouter'', PDict []]),
                 (''num_vehicles'', PInt 21)])) (\<lambda>r.
     py_return ())))"

text \<open>
  \<^verbatim>\<open>
  vehicles.add(veh_id="rl",
               acceleration_controller=(RLController, {}),
               routing_controller=(ContinuousRouter, {}),
               num_vehicles=1)
  \<close>
\<close>

definition cell_rl_vehicle :: "'w lib \<Rightarrow> ('w, unit) py" where
  "cell_rl_vehicle lib =
     py_bind (load ''vehicles'') (\<lambda>vehicles.
     py_bind (extern lib (Method vehicles ''add'' []
                [(''veh_id'', PStr ''rl''),
                 (''acceleration_controller'', PTuple [PName ''RLController'', PDict []]),
                 (''routing_controller'', PTuple [PName ''ContinuousRouter'', PDict []]),
                 (''num_vehicles'', PInt 1)])) (\<lambda>r.
     py_return ()))"

text \<open>
  \<^verbatim>\<open>
  scenario = LoopScenario(name="ring_example", vehicles=vehicles, net_params=net_params,
                          initial_config=initial_config, traffic_lights=traffic_lights)
  \<close>
\<close>

definition cell_scenario :: "'w lib \<Rightarrow> ('w, unit) py" where
  "cell_scenario lib =
     py_bind (load ''vehicles'') (\<lambda>vehicles.
     py_bind (load ''net_params'') (\<lambda>net_params.
     py_bind (load ''initial_config'') (\<lambda>initial_config.
     py_bind (load ''traffic_lights'') (\<lambda>traffic_lights.
     assign ''scenario'' (extern lib (Call ''LoopScenario'' []
       [(''name'', PStr ''ring_example''), (''vehicles'', vehicles),
        (''net_params'', net_params), (''initial_config'', initial_config),
        (''traffic_lights'', traffic_lights)]))))))"

text \<open>\<^verbatim>\<open>sumo_params = SumoParams(sim_step=0.1, render=False)\<close>\<close>

definition cell_sumo_params :: "'w lib \<Rightarrow> ('w, unit) py" where
  "cell_sumo_params lib =
     assign ''sumo_params'' (extern lib (Call ''SumoParams'' []
       [(''sim_step'', PFloat ''0.1''), (''render'', PBool False)]))"

text \<open>
  \<^verbatim>\<open>
  env_params = EnvParams(
      horizon=100,
      additional_params={"max_accel": 1, "max_decel": 1, "ring_length": [220, 270]})
  \<close>
\<close>

definition cell_env_params :: "'w lib \<Rightarrow> ('w, unit) py" where
  "cell_env_params lib =
     assign ''env_params'' (extern lib (Call ''EnvParams'' []
       [(''horizon'', PInt 100),
        (''additional_params'',
           PDict [(''max_accel'', PInt 1), (''max_decel'', PInt 1),
                  (''ring_length'', PList [PInt 220, PInt 270])])]))"

text \<open>
  \<^verbatim>\<open>
  import flow.envs as flowenvs
  print(flowenvs.__all__)
  \<close>
\<close>

definition cell_env_names :: "'w lib \<Rightarrow> ('w, unit) py" where
  "cell_env_names lib =
     py_bind (extern lib (GetAttr (PName ''flowenvs'') ''__all__'')) (\<lambda>names.
     py_bind (extern lib (Call ''print'' [names] [])) (\<lambda>r.
     py_return ()))"

text \<open>
  \<^verbatim>\<open>
  env_name = "WaveAttenuationPOEnv"
  pass_params = (env_name, sumo_params, vehicles, env_params, net_params,
                 initial_config, scenario)
  \<close>
\<close>

definition cell_pass_params :: "('w, unit) py" where
  "cell_pass_params =
     py_bind (store ''env_name'' (PStr ''WaveAttenuationPOEnv'')) (\<lambda>u.
     py_bind (load ''env_name'') (\<lambda>env_name.
     py_bind (load ''sumo_params'') (\<lambda>sumo_params.
     py_bind (load ''vehicles'') (\<lambda>vehicles.
     py_bind (load ''env_params'') (\<lambda>env_params.
     py_bind (load ''net_params'') (\<lambda>net_params.
     py_bind (load ''initial_config'') (\<lambda>initial_config.
     py_bind (load ''scenario'') (\<lambda>scenario.
     store ''pass_params''
       (PTuple [env_name, sumo_params, vehicles, env_params, net_params,
                initial_config, scenario])))))))))"

text \<open>The cells up to here, in the order of the notebook.\<close>

definition configure :: "'w lib \<Rightarrow> pyval \<Rightarrow> ('w, unit) py" where
  "configure lib ADDITIONAL_NET_PARAMS =
     run_cells
       [cell_scenario_params lib ADDITIONAL_NET_PARAMS,
        cell_human_vehicles lib,
        cell_rl_vehicle lib,
        cell_scenario lib,
        cell_sumo_params lib,
        cell_env_params lib,
        cell_env_names lib,
        cell_pass_params]"

subsection \<open>Section 4.1 of the notebook: \<open>run_task\<close>\<close>

text \<open>
  \<^verbatim>\<open>
  def run_task(*_):
      env = GymEnv(env_name, record_video=False, register_params=pass_params)
      horizon = env.horizon
      env = normalize(env)
      policy = GaussianMLPPolicy(env_spec=env.spec, hidden_sizes=(32, 32))
      baseline = LinearFeatureBaseline(env_spec=env.spec)
      algo = TRPO(env=env, policy=policy, baseline=baseline, batch_size=1000,
                  max_path_length=horizon, discount=0.999, n_itr=1)
      algo.train(),
  \<close>
  The first binding of the local \<open>env\<close> is \<open>env0\<close> below, the second one \<open>env\<close>.
  The arguments of the function are ignored; it returns \<open>None\<close>.
\<close>

definition run_task :: "'w lib \<Rightarrow> pyval list \<Rightarrow> ('w, pyval) py" where
  "run_task lib args =
     py_bind (load ''env_name'') (\<lambda>env_name.
     py_bind (load ''pass_params'') (\<lambda>pass_params.
     py_bind (extern lib (Call ''GymEnv'' [env_name]
                [(''record_video'', PBool False), (''register_params'', pass_params)])) (\<lambda>env0.
     py_bind (extern lib (GetAttr env0 ''horizon'')) (\<lambda>horizon.
     py_bind (extern lib (Call ''normalize'' [env0] [])) (\<lambda>env.
     py_bind (extern lib (GetAttr env ''spec'')) (\<lambda>spec1.
     py_bind (extern lib (Call ''GaussianMLPPolicy'' []
                [(''env_spec'', spec1), (''hidden_sizes'', PTuple [PInt 32, PInt 32])])) (\<lambda>policy.
     py_bind (extern lib (GetAttr env ''spec'')) (\<lambda>spec2.
     py_bind (extern lib (Call ''LinearFeatureBaseline'' [] [(''env_spec'', spec2)])) (\<lambda>baseline.
     py_bind (extern lib (Call ''TRPO'' []
                [(''env'', env), (''policy'', policy), (''baseline'', baseline),
                 (''batch_size'', PInt 1000), (''max_path_length'', horizon),
                 (''discount'', PFloat ''0.999''), (''n_itr'', PInt 1)])) (\<lambda>algo.
     py_bind (extern lib (Method algo ''train'' [] [])) (\<lambda>trained.
     py_return PNone)))))))))))"


text \<open>The cell that holds \<^verbatim>\<open>def run_task\<close> binds the name to the function.\<close>

definition cell_def_run_task :: "('w, unit) py" where
  "cell_def_run_task = store ''run_task'' (PFun ''run_task'')"

subsection \<open>Section 4.2 of the notebook: the launch loop\<close>

text \<open>
  \<^verbatim>\<open>
  for seed in [5]:  # , 20, 68]:
      run_experiment_lite(run_task, n_parallel=1, snapshot_mode="all", seed=seed,
                          mode="local", exp_prefix="training_example")
  \<close>
  The loop variable is a global name of the notebook. The loop is written for any list
  of seeds; the notebook's list is \<open>seed_list\<close>.
\<close>

definition launch_once :: "'w lib \<Rightarrow> ('w, unit) py" where
  "launch_once lib =
     py_bind (load ''run_task'') (\<lambda>run_task.
     py_bind (load ''seed'') (\<lambda>seed.
     py_bind (extern lib (Call ''run_experiment_lite'' [run_task]
                [(''n_parallel'', PInt 1), (''snapshot_mode'', PStr ''all''),
                 (''seed'', seed), (''mode'', PStr ''local''),
                 (''exp_prefix'', PStr ''training_example'')])) (\<lambda>r.
     py_return ())))"

fun launch :: "'w lib \<Rightarrow> int list \<Rightarrow> ('w, unit) py" where
  "launch lib [] s = (Inr (), s)"
| "launch lib (seed # seeds) s =
     (case py_bind (store ''seed'' (PInt seed)) (\<lambda>u. launch_once lib) s of
        (Inl e, s') \<Rightarrow> (Inl e, s')
      | (Inr u, s') \<Rightarrow> launch lib seeds s')"

definition seed_list :: "int list" where
  "seed_list = [5]"

definition cell_launch :: "'w lib \<Rightarrow> ('w, unit) py" where
  "cell_launch lib = launch lib seed_list"

text \<open>The whole notebook.\<close>

definition notebook :: "'w lib \<Rightarrow> pyval \<Rightarrow> ('w, unit) py" where
  "notebook lib ADDITIONAL_NET_PARAMS =
     run_cells [configure lib ADDITIONAL_NET_PARAMS, cell_def_run_task, cell_launch lib]"

subsection \<open>Reading a trace\<close>

text \<open>The arguments of the calls made to the library function or class \<open>f\<close>, in order.\<close>

fun call_args :: "string \<Rightarrow> event \<Rightarrow> (pyval list \<times> (string \<times> pyval) list) option" where
  "call_args f (Call f' args kw, r) = (if f' = f then Some (args, kw) else None)"
| "call_args f (Method obj m args kw, r) = None"
| "call_args f (GetAttr obj a, r) = None"

definition calls_to :: "string \<Rightarrow> event list \<Rightarrow> (pyval list \<times> (string \<times> pyval) list) list" where
  "calls_to f tr = List.map_filter (call_args f) tr"

text \<open>The objects that the calls to the class \<open>f\<close> answered with, in order.\<close>

fun call_answer :: "string \<Rightarrow> event \<Rightarrow> pyval option" where
  "call_answer f (Call f' args kw, Inr v) = (if f' = f then Some v else None)"
| "call_answer f (Call f' args kw, Inl e) = None"
| "call_answer f (Method obj m args kw, r) = None"
| "call_answer f (GetAttr obj a, r) = None"

definition answers_to :: "string \<Rightarrow> event list \<Rightarrow> pyval list" where
  "answers_to f tr = List.map_filter (call_answer f) tr"

text \<open>The trace up to the first call of \<open>f\<close>, that call included.\<close>

fun upto_call :: "string \<Rightarrow> event list \<Rightarrow> event list" where
  "upto_call f [] = []"
| "upto_call f (ev # tr) =
     (case call_args f ev of None \<Rightarrow> ev # upto_call f tr | Some c \<Rightarrow> [ev])"

text \<open>The arguments of the calls of method \<open>m\<close> on the object \<open>obj\<close>, in order.\<close>

fun method_args ::
  "pyval \<Rightarrow> string \<Rightarrow> event \<Rightarrow> (pyval list \<times> (string \<times> pyval) list) option" where
  "method_args obj m (Method obj' m' args kw, r) =
     (if obj' = obj \<and> m' = m then Some (args, kw) else None)"
| "method_args obj m (Call f args kw, r) = None"
| "method_args obj m (GetAttr obj' a, r) = None"

definition method_calls ::
  "pyval \<Rightarrow> string \<Rightarrow> event list \<Rightarrow> (pyval list \<times> (string \<times> pyval) list) list" where
  "method_calls obj m tr = List.map_filter (method_args obj m) tr"

text \<open>Every method call of a trace: the receiver and the method's name.\<close>

fun method_of :: "event \<Rightarrow> (pyval \<times> string) option" where
  "method_of (Method obj m args kw, r) = Some (obj, m)"
| "method_of (Call f args kw, r) = None"
| "method_of (GetAttr obj a, r) = None"

definition method_events :: "event list \<Rightarrow> (pyval \<times> string) list" where
  "method_events tr = List.map_filter method_of tr"

subsection \<open>The vehicle registry\<close>

text \<open>
  Modelled from the spec: the fields of an entry of the vehicle registry, as the spec
  lists them. The class \<^verbatim>\<open>VehicleParams\<close> is library code that the notebook imports.
\<close>

definition vehicle_entry_fields :: "string list" where
  "vehicle_entry_fields =
     [''veh_id'', ''acceleration_controller'', ''routing_controller'', ''num_vehicles'']"

text \<open>
  Modelled from the spec: what one call of the method \<^verbatim>\<open>add\<close> of \<^verbatim>\<open>VehicleParams\<close>,
  which is library code too, contributes to the registry. The spec has one entry
  (identifier, acceleration strategy, routing strategy, count) for each kind of vehicle
  added: the positional arguments of the call bound to the field names in their order,
  then its keyword arguments.
\<close>

definition add_entry :: "pyval list \<times> (string \<times> pyval) list \<Rightarrow> (string \<times> pyval) list" where
  "add_entry c = zip vehicle_entry_fields (fst c) @ snd c"

text \<open>
  Modelled from the spec: the vehicle registry is the ordered list of the entries added
  to it. For the registry object \<open>obj\<close> these are the \<^verbatim>\<open>add\<close> calls on \<open>obj\<close> in the
  trace, in order.
\<close>

definition registry :: "pyval \<Rightarrow> event list \<Rightarrow> (string \<times> pyval) list list" where
  "registry obj tr = map add_entry (method_calls obj ''add'' tr)"

text \<open>The count of an entry, and the count of all entries together.\<close>

definition num_vehicles_of :: "(string \<times> pyval) list \<Rightarrow> int option" where
  "num_vehicles_of e = (case map_of e ''num_vehicles'' of Some (PInt n) \<Rightarrow> Some n | _ \<Rightarrow> None)"

fun total_vehicles :: "(string \<times> pyval) list list \<Rightarrow> int option" where
  "total_vehicles [] = Some 0"
| "total_vehicles (e # es) =
     (case (num_vehicles_of e, total_vehicles es) of
        (Some n, Some t) \<Rightarrow> Some (n + t)
      | _ \<Rightarrow> None)"

text \<open>The entry of \<open>additional_params\<close> under a key, in the keyword arguments of a call.\<close>

definition additional_param :: "string \<Rightarrow> (string \<times> pyval) list \<Rightarrow> pyval option" where
  "additional_param k kw =
     (case map_of kw ''additional_params'' of Some (PDict d) \<Rightarrow> map_of d k | _ \<Rightarrow> None)"

subsection \<open>Libraries to run the notebook against\<close>

text \<open>
  A library that never raises: classes and functions answer with a new object,
  methods and \<^verbatim>\<open>print\<close> with \<open>None\<close>, and the attribute \<^verbatim>\<open>horizon\<close> with \<open>h\<close>.
  The world is the number of objects made so far.
\<close>

definition demo_lib :: "pyval \<Rightarrow> nat lib" where
  "demo_lib h c n =
     (case c of
        Call f args kw \<Rightarrow> if f = ''print'' then (Inr PNone, n) else (Inr (PObj n), Suc n)
      | Method obj m args kw \<Rightarrow> (Inr PNone, n)
      | GetAttr obj a \<Rightarrow> if a = ''horizon'' then (Inr h, n) else (Inr (PObj n), Suc n))"

text \<open>The same library, except that calling \<open>f\<close> raises \<open>e\<close>.\<close>

definition failing_lib :: "string \<Rightarrow> exn \<Rightarrow> nat lib" where
  "failing_lib f e c n =
     (case c of
        Call f' args kw \<Rightarrow> if f' = f then (Inl e, n) else demo_lib (PInt 100) c n
      | Method obj m args kw \<Rightarrow> demo_lib (PInt 100) c n
      | GetAttr obj a \<Rightarrow> demo_lib (PInt 100) c n)"

text \<open>
  Modelled from the spec: an example of the imported constant \<^verbatim>\<open>ADDITIONAL_NET_PARAMS\<close>,
  whose definition is library code. The spec's data model gives the network parameters
  a ring length and a lane count.
\<close>

definition example_net_params :: pyval where
  "example_net_params = PDict [(''length'', PInt 230), (''lanes'', PInt 1)]"

text \<open>The state after the configuration cells, run against \<open>demo_lib h\<close> from scratch.\<close>

definition configured :: "pyval \<Rightarrow> nat state" where
  "configured h = snd (configure (demo_lib h) example_net_params (fresh Map.empty 0))"

text \<open>
  \<open>run_task\<close> against \<open>demo_lib h\<close>, with the globals the configuration cells left.
\<close>

definition demo_task :: "pyval \<Rightarrow> (exn + pyval) \<times> nat state" where
  "demo_task h =
     run_task (demo_lib h) [] (fresh (globals (configured h)) (world (configured h)))"

text \<open>
  The state after the whole notebook, run against \<open>demo_lib h\<close> from scratch, and
  \<open>run_task\<close> run against the same library with the globals the notebook left.
\<close>

definition launched :: "pyval \<Rightarrow> nat state" where
  "launched h = snd (notebook (demo_lib h) example_net_params (fresh Map.empty 0))"

definition launched_task :: "pyval \<Rightarrow> (exn + pyval) \<times> nat state" where
  "launched_task h =
     run_task (demo_lib h) [] (fresh (globals (launched h)) (world (launched h)))"

subsection \<open>Exceptions that pass through\<close>

text \<open>
  A program lets library errors through when, from any state, the trace only grows,
  and a library call that raised \<open>e\<close> is the last thing the program did and \<open>e\<close> is
  what the program raises.
\<close>

definition propagates :: "('w, 'a) py \<Rightarrow> bool" where
  "propagates m \<longleftrightarrow>
     (\<forall>s r s'. m s = (r, s') \<longrightarrow>
        (\<exists>new. trace s' = trace s @ new \<and>
           (\<forall>c e. (c, Inl e) \<in> set new \<longrightarrow> r = Inl e \<and> last new = (c, Inl e))))"

section \<open>Stepping through the notebook\<close>

text \<open>One statement at a time: what a library call, a read and a binding do to the state.\<close>

lemma py_bind_extern:
  "py_bind (extern lib c) f s =
     (case lib c (world s) of
        (Inl e, w') \<Rightarrow> (Inl e, s\<lparr>world := w', trace := trace s @ [(c, Inl e)]\<rparr>)
      | (Inr v, w') \<Rightarrow> f v (s\<lparr>world := w', trace := trace s @ [(c, Inr v)]\<rparr>))"
  by (simp add: py_bind_def extern_def split: prod.splits sum.splits)

lemma py_bind_load:
  "py_bind (load n) f s =
     (case globals s n of None \<Rightarrow> (Inl (NameError n), s) | Some v \<Rightarrow> f v s)"
  by (simp add: py_bind_def load_def split: option.splits)

lemma py_bind_store:
  "py_bind (store n v) f s = f () (s\<lparr>globals := (globals s)(n \<mapsto> v)\<rparr>)"
  by (simp add: py_bind_def store_def)

lemma py_bind_assign:
  "py_bind (assign n (extern lib c)) f s =
     (case lib c (world s) of
        (Inl e, w') \<Rightarrow> (Inl e, s\<lparr>world := w', trace := trace s @ [(c, Inl e)]\<rparr>)
      | (Inr v, w') \<Rightarrow> f () (s\<lparr>world := w', trace := trace s @ [(c, Inr v)], globals := (globals s)(n \<mapsto> v)\<rparr>))"
  by (simp add: py_bind_def extern_def assign_def store_def split: prod.splits sum.splits)

lemma assign_extern:
  "assign n (extern lib c) s =
     (case lib c (world s) of
        (Inl e, w') \<Rightarrow> (Inl e, s\<lparr>world := w', trace := trace s @ [(c, Inl e)]\<rparr>)
      | (Inr v, w') \<Rightarrow> (Inr (), s\<lparr>world := w', trace := trace s @ [(c, Inr v)], globals := (globals s)(n \<mapsto> v)\<rparr>))"
  by (simp add: py_bind_def extern_def assign_def store_def split: prod.splits sum.splits)

lemmas step =
  py_bind_extern py_bind_load py_bind_store py_bind_assign assign_extern py_return_def store_def
lemmas cells = cell_scenario_params_def cell_human_vehicles_def cell_rl_vehicle_def
  cell_scenario_def cell_sumo_params_def cell_env_params_def cell_env_names_def cell_pass_params_def



lemma cell_scenario_params_success:
  assumes "cell_scenario_params lib anp s = (Inr u, s')"
  shows "\<exists>netp ic tl.
     trace s' = trace s @
       [(Call ''NetParams'' [] [(''additional_params'', anp)], Inr netp),
        (Call ''InitialConfig'' [] [(''spacing'', PStr ''uniform''), (''perturbation'', PInt 1)], Inr ic),
        (Call ''TrafficLightParams'' [] [], Inr tl)]
   \<and> globals s' = (globals s)(''name'' \<mapsto> PStr ''training_example'', ''net_params'' \<mapsto> netp,
         ''initial_config'' \<mapsto> ic, ''traffic_lights'' \<mapsto> tl)"
  using assms
  by (auto simp: cells step split: sum.splits prod.splits)

lemma cell_human_vehicles_success:
  assumes "cell_human_vehicles lib s = (Inr u, s')"
  shows "\<exists>veh a1.
     trace s' = trace s @
       [(Call ''VehicleParams'' [] [], Inr veh),
        (Method veh ''add'' [PStr ''human'']
           [(''acceleration_controller'', PTuple [PName ''IDMController'', PDict []]),
            (''routing_controller'', PTuple [PName ''ContinuousRouter'', PDict []]),
            (''num_vehicles'', PInt 21)], Inr a1)]
   \<and> globals s' = (globals s)(''vehicles'' \<mapsto> veh)"
  using assms
  by (auto simp: cells step split: sum.splits prod.splits)

lemma cell_rl_vehicle_success:
  assumes "cell_rl_vehicle lib s = (Inr u, s')"
  shows "\<exists>veh a2. globals s ''vehicles'' = Some veh \<and>
     trace s' = trace s @
       [(Method veh ''add'' []
           [(''veh_id'', PStr ''rl''),
            (''acceleration_controller'', PTuple [PName ''RLController'', PDict []]),
            (''routing_controller'', PTuple [PName ''ContinuousRouter'', PDict []]),
            (''num_vehicles'', PInt 1)], Inr a2)]
   \<and> globals s' = globals s"
  using assms
  by (auto simp: cells step split: option.splits sum.splits prod.splits)

lemma cell_scenario_success:
  assumes "cell_scenario lib s = (Inr u, s')"
  shows "\<exists>veh netp ic tl scen.
     globals s ''vehicles'' = Some veh \<and> globals s ''net_params'' = Some netp \<and>
     globals s ''initial_config'' = Some ic \<and> globals s ''traffic_lights'' = Some tl \<and>
     trace s' = trace s @
       [(Call ''LoopScenario'' []
           [(''name'', PStr ''ring_example''), (''vehicles'', veh), (''net_params'', netp),
            (''initial_config'', ic), (''traffic_lights'', tl)], Inr scen)]
   \<and> globals s' = (globals s)(''scenario'' \<mapsto> scen)"
  using assms
  by (auto simp: cells step split: option.splits sum.splits prod.splits)

lemma cell_sumo_params_success:
  assumes "cell_sumo_params lib s = (Inr u, s')"
  shows "\<exists>sumo.
     trace s' = trace s @
       [(Call ''SumoParams'' [] [(''sim_step'', PFloat ''0.1''), (''render'', PBool False)], Inr sumo)]
   \<and> globals s' = (globals s)(''sumo_params'' \<mapsto> sumo)"
  using assms
  by (auto simp: cells step split: option.splits sum.splits prod.splits)

lemma cell_env_params_success:
  assumes "cell_env_params lib s = (Inr u, s')"
  shows "\<exists>envp.
     trace s' = trace s @
       [(Call ''EnvParams'' []
           [(''horizon'', PInt 100),
            (''additional_params'',
               PDict [(''max_accel'', PInt 1), (''max_decel'', PInt 1),
                      (''ring_length'', PList [PInt 220, PInt 270])])], Inr envp)]
   \<and> globals s' = (globals s)(''env_params'' \<mapsto> envp)"
  using assms
  by (auto simp: cells step split: option.splits sum.splits prod.splits)

lemma cell_env_names_success:
  assumes "cell_env_names lib s = (Inr u, s')"
  shows "\<exists>names pr.
     trace s' = trace s @
       [(GetAttr (PName ''flowenvs'') ''__all__'', Inr names),
        (Call ''print'' [names] [], Inr pr)]
   \<and> globals s' = globals s"
  using assms
  by (auto simp: cells step split: option.splits sum.splits prod.splits)

lemma cell_pass_params_success:
  assumes "cell_pass_params s = (Inr u, s')"
  shows "\<exists>sumo veh envp netp ic scen.
     globals s ''sumo_params'' = Some sumo \<and> globals s ''vehicles'' = Some veh \<and>
     globals s ''env_params'' = Some envp \<and> globals s ''net_params'' = Some netp \<and>
     globals s ''initial_config'' = Some ic \<and> globals s ''scenario'' = Some scen \<and>
     trace s' = trace s
   \<and> globals s' = (globals s)(''env_name'' \<mapsto> PStr ''WaveAttenuationPOEnv'',
         ''pass_params'' \<mapsto> PTuple [PStr ''WaveAttenuationPOEnv'', sumo, veh, envp, netp, ic, scen])"
  using assms
  by (auto simp: cells step split: option.splits sum.splits prod.splits)

lemma run_cells_Cons_success:
  "run_cells (c # cs) s = (Inr u, s'') \<Longrightarrow> \<exists>s'. c s = (Inr (), s') \<and> run_cells cs s' = (Inr u, s'')"
  by (auto split: prod.splits sum.splits)


lemma configure_success:
  assumes "configure lib anp (fresh g w) = (Inr u, s)"
  shows "\<exists>netp ic tl veh a1 a2 scen sumo envp names pr.
     trace s =
       [(Call ''NetParams'' [] [(''additional_params'', anp)], Inr netp),
        (Call ''InitialConfig'' [] [(''spacing'', PStr ''uniform''), (''perturbation'', PInt 1)], Inr ic),
        (Call ''TrafficLightParams'' [] [], Inr tl),
        (Call ''VehicleParams'' [] [], Inr veh),
        (Method veh ''add'' [PStr ''human'']
           [(''acceleration_controller'', PTuple [PName ''IDMController'', PDict []]),
            (''routing_controller'', PTuple [PName ''ContinuousRouter'', PDict []]),
            (''num_vehicles'', PInt 21)], Inr a1),
        (Method veh ''add'' []
           [(''veh_id'', PStr ''rl''),
            (''acceleration_controller'', PTuple [PName ''RLController'', PDict []]),
            (''routing_controller'', PTuple [PName ''ContinuousRouter'', PDict []]),
            (''num_vehicles'', PInt 1)], Inr a2),
        (Call ''LoopScenario'' []
           [(''name'', PStr ''ring_example''), (''vehicles'', veh), (''net_params'', netp),
            (''initial_config'', ic), (''traffic_lights'', tl)], Inr scen),
        (Call ''SumoParams'' [] [(''sim_step'', PFloat ''0.1''), (''render'', PBool False)], Inr sumo),
        (Call ''EnvParams'' []
           [(''horizon'', PInt 100),
            (''additional_params'',
               PDict [(''max_accel'', PInt 1), (''max_decel'', PInt 1),
                      (''ring_length'', PList [PInt 220, PInt 270])])], Inr envp),
        (GetAttr (PName ''flowenvs'') ''__all__'', Inr names),
        (Call ''print'' [names] [], Inr pr)]
   \<and> globals s = g(''name'' \<mapsto> PStr ''training_example'', ''net_params'' \<mapsto> netp,
         ''initial_config'' \<mapsto> ic, ''traffic_lights'' \<mapsto> tl, ''vehicles'' \<mapsto> veh,
         ''scenario'' \<mapsto> scen, ''sumo_params'' \<mapsto> sumo, ''env_params'' \<mapsto> envp,
         ''env_name'' \<mapsto> PStr ''WaveAttenuationPOEnv'',
         ''pass_params'' \<mapsto> PTuple [PStr ''WaveAttenuationPOEnv'', sumo, veh, envp, netp, ic, scen])"
proof -
  from assms obtain s1 s2 s3 s4 s5 s6 s7 where
    c1: "cell_scenario_params lib anp (fresh g w) = (Inr (), s1)" and
    c2: "cell_human_vehicles lib s1 = (Inr (), s2)" and
    c3: "cell_rl_vehicle lib s2 = (Inr (), s3)" and
    c4: "cell_scenario lib s3 = (Inr (), s4)" and
    c5: "cell_sumo_params lib s4 = (Inr (), s5)" and
    c6: "cell_env_params lib s5 = (Inr (), s6)" and
    c7: "cell_env_names lib s6 = (Inr (), s7)" and
    c8: "cell_pass_params s7 = (Inr (), s)"
    unfolding configure_def by (auto split: prod.splits sum.splits)
  show ?thesis
    using cell_scenario_params_success [OF c1] cell_human_vehicles_success [OF c2]
      cell_rl_vehicle_success [OF c3] cell_scenario_success [OF c4]
      cell_sumo_params_success [OF c5] cell_env_params_success [OF c6]
      cell_env_names_success [OF c7] cell_pass_params_success [OF c8]
    by (clarsimp simp: fresh_def)
qed

lemma run_task_success:
  assumes "run_task lib args (fresh g w) = (Inr v, s')"
  shows "\<exists>en pp env0 h env sp1 pol sp2 bl algo tr.
     g ''env_name'' = Some en \<and> g ''pass_params'' = Some pp \<and> v = PNone \<and>
     trace s' =
       [(Call ''GymEnv'' [en] [(''record_video'', PBool False), (''register_params'', pp)], Inr env0),
        (GetAttr env0 ''horizon'', Inr h),
        (Call ''normalize'' [env0] [], Inr env),
        (GetAttr env ''spec'', Inr sp1),
        (Call ''GaussianMLPPolicy'' []
           [(''env_spec'', sp1), (''hidden_sizes'', PTuple [PInt 32, PInt 32])], Inr pol),
        (GetAttr env ''spec'', Inr sp2),
        (Call ''LinearFeatureBaseline'' [] [(''env_spec'', sp2)], Inr bl),
        (Call ''TRPO'' []
           [(''env'', env), (''policy'', pol), (''baseline'', bl),
            (''batch_size'', PInt 1000), (''max_path_length'', h),
            (''discount'', PFloat ''0.999''), (''n_itr'', PInt 1)], Inr algo),
        (Method algo ''train'' [] [], Inr tr)]"
  using assms
  by (auto simp: run_task_def step fresh_def split: option.splits sum.splits prod.splits)

section \<open>Running against the demonstration library\<close>

lemma configure_demo:
  "configure (demo_lib h) anp (fresh Map.empty 0) =
    (Inr (),
     \<lparr>globals = [''name'' \<mapsto> PStr ''training_example'', ''net_params'' \<mapsto> PObj 0,
         ''initial_config'' \<mapsto> PObj 1, ''traffic_lights'' \<mapsto> PObj 2, ''vehicles'' \<mapsto> PObj 3,
         ''scenario'' \<mapsto> PObj 4, ''sumo_params'' \<mapsto> PObj 5, ''env_params'' \<mapsto> PObj 6,
         ''env_name'' \<mapsto> PStr ''WaveAttenuationPOEnv'',
         ''pass_params'' \<mapsto> PTuple [PStr ''WaveAttenuationPOEnv'', PObj 5, PObj 3, PObj 6, PObj 0, PObj 1, PObj 4]],
      world = 8,
      trace =
       [(Call ''NetParams'' [] [(''additional_params'', anp)], Inr (PObj 0)),
        (Call ''InitialConfig'' [] [(''spacing'', PStr ''uniform''), (''perturbation'', PInt 1)], Inr (PObj 1)),
        (Call ''TrafficLightParams'' [] [], Inr (PObj 2)),
        (Call ''VehicleParams'' [] [], Inr (PObj 3)),
        (Method (PObj 3) ''add'' [PStr ''human'']
           [(''acceleration_controller'', PTuple [PName ''IDMController'', PDict []]),
            (''routing_controller'', PTuple [PName ''ContinuousRouter'', PDict []]),
            (''num_vehicles'', PInt 21)], Inr PNone),
        (Method (PObj 3) ''add'' []
           [(''veh_id'', PStr ''rl''),
            (''acceleration_controller'', PTuple [PName ''RLController'', PDict []]),
            (''routing_controller'', PTuple [PName ''ContinuousRouter'', PDict []]),
            (''num_vehicles'', PInt 1)], Inr PNone),
        (Call ''LoopScenario'' []
           [(''name'', PStr ''ring_example''), (''vehicles'', PObj 3), (''net_params'', PObj 0),
            (''initial_config'', PObj 1), (''traffic_lights'', PObj 2)], Inr (PObj 4)),
        (Call ''SumoParams'' [] [(''sim_step'', PFloat ''0.1''), (''render'', PBool False)], Inr (PObj 5)),
        (Call ''EnvParams'' []
           [(''horizon'', PInt 100),
            (''additional_params'',
               PDict [(''max_accel'', PInt 1), (''max_decel'', PInt 1),
                      (''ring_length'', PList [PInt 220, PInt 270])])], Inr (PObj 6)),
        (GetAttr (PName ''flowenvs'') ''__all__'', Inr (PObj 7)),
        (Call ''print'' [PObj 7] [], Inr PNone)]\<rparr>)"
  by (simp add: configure_def cells step fresh_def demo_lib_def eval_nat_numeral)


lemma configured_run:
  "configure (demo_lib h) example_net_params (fresh Map.empty 0) = (Inr (), configured h)"
  by (simp add: configured_def configure_demo)

lemma configured_globals:
  "globals (configured h) =
     [''name'' \<mapsto> PStr ''training_example'', ''net_params'' \<mapsto> PObj 0,
      ''initial_config'' \<mapsto> PObj 1, ''traffic_lights'' \<mapsto> PObj 2, ''vehicles'' \<mapsto> PObj 3,
      ''scenario'' \<mapsto> PObj 4, ''sumo_params'' \<mapsto> PObj 5, ''env_params'' \<mapsto> PObj 6,
      ''env_name'' \<mapsto> PStr ''WaveAttenuationPOEnv'',
      ''pass_params'' \<mapsto>
         PTuple [PStr ''WaveAttenuationPOEnv'', PObj 5, PObj 3, PObj 6, PObj 0, PObj 1, PObj 4]]"
  by (simp add: configured_def configure_demo)

lemma configured_world: "world (configured h) = 8"
  by (simp add: configured_def configure_demo)

lemma demo_task_result: "fst (demo_task h) = Inr PNone"
  by (simp add: demo_task_def configured_globals configured_world run_task_def step fresh_def
      demo_lib_def)

lemma demo_task_trace:
  "trace (snd (demo_task h)) =
     [(Call ''GymEnv'' [PStr ''WaveAttenuationPOEnv'']
         [(''record_video'', PBool False),
          (''register_params'',
             PTuple [PStr ''WaveAttenuationPOEnv'', PObj 5, PObj 3, PObj 6, PObj 0, PObj 1, PObj 4])],
       Inr (PObj 8)),
      (GetAttr (PObj 8) ''horizon'', Inr h),
      (Call ''normalize'' [PObj 8] [], Inr (PObj 9)),
      (GetAttr (PObj 9) ''spec'', Inr (PObj 10)),
      (Call ''GaussianMLPPolicy'' []
         [(''env_spec'', PObj 10), (''hidden_sizes'', PTuple [PInt 32, PInt 32])], Inr (PObj 11)),
      (GetAttr (PObj 9) ''spec'', Inr (PObj 12)),
      (Call ''LinearFeatureBaseline'' [] [(''env_spec'', PObj 12)], Inr (PObj 13)),
      (Call ''TRPO'' []
         [(''env'', PObj 9), (''policy'', PObj 11), (''baseline'', PObj 13),
          (''batch_size'', PInt 1000), (''max_path_length'', h),
          (''discount'', PFloat ''0.999''), (''n_itr'', PInt 1)], Inr (PObj 14)),
      (Method (PObj 14) ''train'' [] [], Inr PNone)]"
  by (simp add: demo_task_def configured_globals configured_world run_task_def step fresh_def
      demo_lib_def eval_nat_numeral)

lemma demo_task_run:
  "run_task (demo_lib h) [] (fresh (globals (configured h)) (world (configured h)))
     = (Inr PNone, snd (demo_task h))"
  using demo_task_result [of h] by (simp add: demo_task_def prod_eq_iff)

lemma demo_task_trpo:
  "(Call ''TRPO'' []
      [(''env'', PObj 9), (''policy'', PObj 11), (''baseline'', PObj 13),
       (''batch_size'', PInt 1000), (''max_path_length'', h),
       (''discount'', PFloat ''0.999''), (''n_itr'', PInt 1)], Inr (PObj 14))
   \<in> set (trace (snd (demo_task h)))"
  by (simp add: demo_task_trace)

section \<open>Facts about traces\<close>

lemmas observers =
  calls_to_def method_calls_def method_events_def registry_def
  add_entry_def vehicle_entry_fields_def num_vehicles_of_def additional_param_def
  answers_to_def

lemma calls_to_append: "calls_to f (xs @ ys) = calls_to f xs @ calls_to f ys"
  by (simp add: calls_to_def List.map_filter_def)

text \<open>What the rest of the notebook adds to the configured state, and how \<open>run_task\<close> starts.\<close>

lemma notebook_after_configure:
  assumes "configure lib anp (fresh g w) = (Inr u, s)"
    and "notebook lib anp (fresh g w) = (r, sn)"
  shows "\<exists>x. trace sn =
            trace s @
            [(Call ''run_experiment_lite'' [PFun ''run_task'']
                [(''n_parallel'', PInt 1), (''snapshot_mode'', PStr ''all''),
                 (''seed'', PInt 5), (''mode'', PStr ''local''),
                 (''exp_prefix'', PStr ''training_example'')], x)]
         \<and> globals sn = (globals s)(''run_task'' \<mapsto> PFun ''run_task'', ''seed'' \<mapsto> PInt 5)"
  using assms
  by (auto simp: notebook_def cell_def_run_task_def cell_launch_def seed_list_def
      launch_once_def step split: sum.splits prod.splits)

lemma run_task_first_call:
  assumes "g ''env_name'' = Some en" and "g ''pass_params'' = Some pp"
    and "run_task lib args (fresh g w) = (r, s')"
  shows "(\<exists>x rest. trace s' =
            (Call ''GymEnv'' [en] [(''record_video'', PBool False), (''register_params'', pp)], x)
            # rest)
       \<and> method_events (trace s') = map (\<lambda>a. (a, ''train'')) (answers_to ''TRPO'' (trace s'))"
  using assms
  by (auto simp: run_task_def step fresh_def observers split: sum.splits prod.splits)

lemma method_events_append: "method_events (xs @ ys) = method_events xs @ method_events ys"
  by (simp add: method_events_def List.map_filter_def)

lemma notebook_demo:
  "notebook (demo_lib h) example_net_params (fresh Map.empty 0) = (Inr (), launched h)"
proof -
  have "fst (notebook (demo_lib h) example_net_params (fresh Map.empty 0)) = Inr ()"
    by (simp add: notebook_def configure_demo cell_def_run_task_def cell_launch_def
        seed_list_def launch_once_def step demo_lib_def)
  then show ?thesis
    by (simp add: launched_def prod_eq_iff)
qed

lemma launched_globals:
  "globals (launched h) =
     (globals (configured h))(''run_task'' \<mapsto> PFun ''run_task'', ''seed'' \<mapsto> PInt 5)"
  using notebook_after_configure [OF configured_run notebook_demo] by blast

lemma launched_task_run:
  "run_task (demo_lib h) [] (fresh (globals (launched h)) (world (launched h)))
     = (Inr PNone, snd (launched_task h))"
proof -
  have "fst (launched_task h) = Inr PNone"
    by (simp add: launched_task_def launched_globals configured_globals run_task_def step
        fresh_def demo_lib_def)
  then show ?thesis
    by (simp add: launched_task_def prod_eq_iff)
qed

section \<open>Library errors pass through every program of the notebook\<close>

lemma propagates_return: "propagates (py_return x)"
  by (simp add: propagates_def py_return_def)

lemma propagates_load: "propagates (load n)"
  by (auto simp: propagates_def load_def split: option.splits)

lemma propagates_store: "propagates (store n v)"
  by (simp add: propagates_def store_def)

lemma propagates_extern: "propagates (extern lib c)"
  by (auto simp: propagates_def extern_def split: prod.splits)

lemma propagates_bind:
  assumes m: "propagates m" and f: "\<And>x. propagates (f x)"
  shows "propagates (py_bind m f)"
  unfolding propagates_def
proof (intro allI impI)
  fix s r s'
  assume run: "py_bind m f s = (r, s')"
  obtain r1 s1 where m1: "m s = (r1, s1)"
    by (cases "m s")
  from m m1 obtain new1 where
    t1: "trace s1 = trace s @ new1" and
    e1: "\<And>c e. (c, Inl e) \<in> set new1 \<Longrightarrow> r1 = Inl e \<and> last new1 = (c, Inl e)"
    unfolding propagates_def by blast
  show "\<exists>new. trace s' = trace s @ new \<and>
          (\<forall>c e. (c, Inl e) \<in> set new \<longrightarrow> r = Inl e \<and> last new = (c, Inl e))"
  proof (cases r1)
    case (Inl e1)
    with run m1 have "r = Inl e1" "s' = s1"
      by (simp_all add: py_bind_def)
    with t1 e1 Inl show ?thesis
      by auto
  next
    case (Inr x)
    with run m1 have fx: "f x s1 = (r, s')"
      by (simp add: py_bind_def)
    from f [of x] fx obtain new2 where
      t2: "trace s' = trace s1 @ new2" and
      e2: "\<And>c e. (c, Inl e) \<in> set new2 \<Longrightarrow> r = Inl e \<and> last new2 = (c, Inl e)"
      unfolding propagates_def by blast
    from e1 Inr have clean: "\<And>c e. (c, Inl e) \<notin> set new1"
      by auto
    have "\<forall>c e. (c, Inl e) \<in> set (new1 @ new2) \<longrightarrow>
            r = Inl e \<and> last (new1 @ new2) = (c, Inl e)"
    proof (intro allI impI)
      fix c e
      assume "(c, Inl e) \<in> set (new1 @ new2)"
      with clean have mem: "(c, Inl e) \<in> set new2"
        by auto
      then have "new2 \<noteq> []"
        by auto
      with e2 [OF mem] show "r = Inl e \<and> last (new1 @ new2) = (c, Inl e)"
        by simp
    qed
    with t1 t2 show ?thesis
      by auto
  qed
qed

lemma propagates_run_task: "propagates (run_task lib args)"
  unfolding run_task_def
  by (intro propagates_bind propagates_load propagates_extern propagates_return)

lemma propagates_launch_once: "propagates (py_bind (store ''seed'' v) (\<lambda>u. launch_once lib))"
  unfolding launch_once_def
  by (intro propagates_bind propagates_load propagates_store propagates_extern propagates_return)

lemma propagates_launch: "propagates (launch lib seeds)"
proof (induction seeds)
  case Nil
  show ?case
    by (simp add: propagates_def)
next
  case (Cons seed seeds)
  have "launch lib (seed # seeds) =
          py_bind (py_bind (store ''seed'' (PInt seed)) (\<lambda>u. launch_once lib)) (\<lambda>u. launch lib seeds)"
    by (rule ext) (simp add: py_bind_def split: prod.splits sum.splits)
  moreover have "propagates (py_bind (py_bind (store ''seed'' (PInt seed)) (\<lambda>u. launch_once lib))
      (\<lambda>u. launch lib seeds))"
    by (intro propagates_bind propagates_launch_once Cons.IH)
  ultimately show ?case
    by simp
qed

lemma propagates_assign: "propagates m \<Longrightarrow> propagates (assign n m)"
  unfolding assign_def by (intro propagates_bind propagates_store)

lemma propagates_run_cells:
  assumes "\<And>c. c \<in> set cs \<Longrightarrow> propagates c"
  shows "propagates (run_cells cs)"
  using assms
proof (induction cs)
  case Nil
  show ?case
    by (simp add: propagates_def)
next
  case (Cons c cs)
  have "run_cells (c # cs) = py_bind c (\<lambda>u. run_cells cs)"
    by (rule ext) (simp add: py_bind_def split: prod.splits sum.splits)
  moreover have "propagates (py_bind c (\<lambda>u. run_cells cs))"
    by (intro propagates_bind) (simp_all add: Cons)
  ultimately show ?case
    by simp
qed

lemma propagates_configure: "propagates (configure lib anp)"
  unfolding configure_def
  by (rule propagates_run_cells)
    (auto simp: cells intro!: propagates_bind propagates_assign propagates_load
      propagates_store propagates_extern propagates_return)

lemma propagates_notebook: "propagates (notebook lib anp)"
  unfolding notebook_def
  by (rule propagates_run_cells)
    (auto simp: cell_def_run_task_def cell_launch_def
      intro: propagates_configure propagates_store propagates_launch)

lemma propagates_fresh:
  assumes "propagates m" and "(c, Inl e) \<in> set (trace (snd (m (fresh g w))))"
  shows "fst (m (fresh g w)) = Inl e \<and> last (trace (snd (m (fresh g w)))) = (c, Inl e)"
proof -
  obtain r s' where run: "m (fresh g w) = (r, s')"
    by (cases "m (fresh g w)")
  from assms(1) run obtain new where
    "trace s' = trace (fresh g w) @ new"
    "\<forall>c e. (c, Inl e) \<in> set new \<longrightarrow> r = Inl e \<and> last new = (c, Inl e)"
    unfolding propagates_def by blast
  with run assms(2) show ?thesis
    by (simp add: fresh_def)
qed

section \<open>The configuration the notebook builds\<close>

text \<open>
  C4. The simulation parameter object is built with exactly the fields \<^verbatim>\<open>sim_step\<close>
  (0.1) and \<^verbatim>\<open>render\<close> (False); the environment parameter object is built with the
  horizon 100, a positive integer, and an \<^verbatim>\<open>additional_params\<close> mapping with exactly
  the keys \<^verbatim>\<open>max_accel\<close> (1), \<^verbatim>\<open>max_decel\<close> (1) and \<^verbatim>\<open>ring_length\<close> ([220, 270]).
  Whenever the configuration cells run to their end, each of the two classes has been
  called once, with exactly these keyword arguments.
\<close>

theorem sim_and_env_params:
  assumes "configure lib anp (fresh g w) = (Inr u, s)"
  shows "calls_to ''SumoParams'' (trace s)
           = [([], [(''sim_step'', PFloat ''0.1''), (''render'', PBool False)])]
     \<and> calls_to ''EnvParams'' (trace s)
           = [([], [(''horizon'', PInt 100),
                    (''additional_params'',
                       PDict [(''max_accel'', PInt 1), (''max_decel'', PInt 1),
                              (''ring_length'', PList [PInt 220, PInt 270])])])]"
  using configure_success [OF assms] by (clarsimp simp: observers)

text \<open>The configuration cells do run to their end against the demonstration library.\<close>

theorem sim_and_env_params_witness:
  "configure (demo_lib (PInt 100)) example_net_params (fresh Map.empty 0)
     = (Inr (), configured (PInt 100))
   \<and> (calls_to ''SumoParams'' (trace (configured (PInt 100)))
           = [([], [(''sim_step'', PFloat ''0.1''), (''render'', PBool False)])]
     \<and> calls_to ''EnvParams'' (trace (configured (PInt 100)))
           = [([], [(''horizon'', PInt 100),
                    (''additional_params'',
                       PDict [(''max_accel'', PInt 1), (''max_decel'', PInt 1),
                              (''ring_length'', PList [PInt 220, PInt 270])])])])"
  by (rule conjI [OF configured_run sim_and_env_params [OF configured_run]])

text \<open>
  C5. The claim places the ring-length range the agent is trained on among the
  additional fields of the network parameter object. The notebook builds
  \<^verbatim>\<open>net_params\<close> from the imported \<^verbatim>\<open>ADDITIONAL_NET_PARAMS\<close> alone and adds nothing to
  it; the range [220, 270] is the entry \<^verbatim>\<open>ring_length\<close> of the additional parameters
  of the environment parameter object.
\<close>

theorem ring_length_range_in_env_params:
  assumes "configure lib anp (fresh g w) = (Inr u, s)"
  shows "calls_to ''NetParams'' (trace s) = [([], [(''additional_params'', anp)])]
     \<and> map (\<lambda>c. additional_param ''ring_length'' (snd c)) (calls_to ''EnvParams'' (trace s))
           = [Some (PList [PInt 220, PInt 270])]"
  using configure_success [OF assms] by (clarsimp simp: observers)

theorem ring_length_range_in_env_params_witness:
  "configure (demo_lib (PInt 100)) example_net_params (fresh Map.empty 0)
     = (Inr (), configured (PInt 100))
   \<and> (calls_to ''NetParams'' (trace (configured (PInt 100)))
         = [([], [(''additional_params'', example_net_params)])]
     \<and> map (\<lambda>c. additional_param ''ring_length'' (snd c))
          (calls_to ''EnvParams'' (trace (configured (PInt 100))))
           = [Some (PList [PInt 220, PInt 270])])"
  by (rule conjI [OF configured_run ring_length_range_in_env_params [OF configured_run]])

text \<open>
  With network parameters that hold a ring length and a lane count, the object passed to
  \<^verbatim>\<open>NetParams\<close> has no ring-length range, while the one passed to \<^verbatim>\<open>EnvParams\<close> has.
\<close>

theorem net_params_ring_range_counterexample:
  "map (\<lambda>c. map_of (snd c) ''additional_params'')
       (calls_to ''NetParams'' (trace (configured (PInt 100))))
     = [Some (PDict [(''length'', PInt 230), (''lanes'', PInt 1)])]
   \<and> map (\<lambda>c. additional_param ''ring_length'' (snd c))
        (calls_to ''NetParams'' (trace (configured (PInt 100)))) = [None]
   \<and> map (\<lambda>c. additional_param ''ring_length'' (snd c))
        (calls_to ''EnvParams'' (trace (configured (PInt 100))))
     = [Some (PList [PInt 220, PInt 270])]"
  by (simp add: configured_def configure_demo observers example_net_params_def)

text \<open>
  C2. The vehicle registry is populated with exactly two entries, one human-driven and
  one RL-driven. Each entry carries exactly the fields \<^verbatim>\<open>veh_id\<close>,
  \<^verbatim>\<open>acceleration_controller\<close>, \<^verbatim>\<open>routing_controller\<close> and \<^verbatim>\<open>num_vehicles\<close>; the human
  entry has the acceleration controller \<^verbatim>\<open>IDMController\<close> and 21 vehicles, the RL entry
  has \<^verbatim>\<open>RLController\<close> and 1 vehicle.
\<close>

theorem vehicle_registry_entries:
  assumes "configure lib anp (fresh g w) = (Inr u, s)"
  shows "\<exists>veh. globals s ''vehicles'' = Some veh
     \<and> answers_to ''VehicleParams'' (trace s) = [veh]
     \<and> registry veh (trace s) =
         [[(''veh_id'', PStr ''human''),
           (''acceleration_controller'', PTuple [PName ''IDMController'', PDict []]),
           (''routing_controller'', PTuple [PName ''ContinuousRouter'', PDict []]),
           (''num_vehicles'', PInt 21)],
          [(''veh_id'', PStr ''rl''),
           (''acceleration_controller'', PTuple [PName ''RLController'', PDict []]),
           (''routing_controller'', PTuple [PName ''ContinuousRouter'', PDict []]),
           (''num_vehicles'', PInt 1)]]
     \<and> map (map fst) (registry veh (trace s)) = [vehicle_entry_fields, vehicle_entry_fields]"
  using configure_success [OF assms] by (clarsimp simp: observers)

theorem vehicle_registry_entries_witness:
  "configure (demo_lib (PInt 100)) example_net_params (fresh Map.empty 0)
     = (Inr (), configured (PInt 100))
   \<and> (\<exists>veh. globals (configured (PInt 100)) ''vehicles'' = Some veh
     \<and> answers_to ''VehicleParams'' (trace (configured (PInt 100))) = [veh]
     \<and> registry veh (trace (configured (PInt 100))) =
         [[(''veh_id'', PStr ''human''),
           (''acceleration_controller'', PTuple [PName ''IDMController'', PDict []]),
           (''routing_controller'', PTuple [PName ''ContinuousRouter'', PDict []]),
           (''num_vehicles'', PInt 21)],
          [(''veh_id'', PStr ''rl''),
           (''acceleration_controller'', PTuple [PName ''RLController'', PDict []]),
           (''routing_controller'', PTuple [PName ''ContinuousRouter'', PDict []]),
           (''num_vehicles'', PInt 1)]]
     \<and> map (map fst) (registry veh (trace (configured (PInt 100))))
         = [vehicle_entry_fields, vehicle_entry_fields])"
  by (rule conjI [OF configured_run vehicle_registry_entries [OF configured_run]])

text \<open>
  C10. The two registry entries have distinct identifiers, \<^verbatim>\<open>"human"\<close> and \<^verbatim>\<open>"rl"\<close>,
  both use the routing strategy \<^verbatim>\<open>ContinuousRouter\<close>, and the vehicle counts of all
  entries add up to 22 (21 human-driven and 1 RL-driven).
\<close>

theorem vehicle_registry_totals:
  assumes "configure lib anp (fresh g w) = (Inr u, s)"
  shows "\<exists>veh. globals s ''vehicles'' = Some veh
     \<and> map (\<lambda>e. map_of e ''veh_id'') (registry veh (trace s))
         = [Some (PStr ''human''), Some (PStr ''rl'')]
     \<and> distinct (map (\<lambda>e. map_of e ''veh_id'') (registry veh (trace s)))
     \<and> map (\<lambda>e. map_of e ''routing_controller'') (registry veh (trace s))
         = [Some (PTuple [PName ''ContinuousRouter'', PDict []]),
            Some (PTuple [PName ''ContinuousRouter'', PDict []])]
     \<and> map num_vehicles_of (registry veh (trace s)) = [Some 21, Some 1]
     \<and> total_vehicles (registry veh (trace s)) = Some 22"
  using configure_success [OF assms] by (clarsimp simp: observers)

theorem vehicle_registry_totals_witness:
  "configure (demo_lib (PInt 100)) example_net_params (fresh Map.empty 0)
     = (Inr (), configured (PInt 100))
   \<and> (\<exists>veh. globals (configured (PInt 100)) ''vehicles'' = Some veh
     \<and> map (\<lambda>e. map_of e ''veh_id'') (registry veh (trace (configured (PInt 100))))
         = [Some (PStr ''human''), Some (PStr ''rl'')]
     \<and> distinct (map (\<lambda>e. map_of e ''veh_id'') (registry veh (trace (configured (PInt 100)))))
     \<and> map (\<lambda>e. map_of e ''routing_controller'') (registry veh (trace (configured (PInt 100))))
         = [Some (PTuple [PName ''ContinuousRouter'', PDict []]),
            Some (PTuple [PName ''ContinuousRouter'', PDict []])]
     \<and> map num_vehicles_of (registry veh (trace (configured (PInt 100)))) = [Some 21, Some 1]
     \<and> total_vehicles (registry veh (trace (configured (PInt 100)))) = Some 22)"
  by (rule conjI [OF configured_run vehicle_registry_totals [OF configured_run]])

text \<open>
  C8. The claim gives every configuration record the same short life: constructed once,
  passed into library calls, discarded, never changed after its construction and never
  kept for later use. The notebook does construct each record with one call and passes
  it into library calls. But the vehicle registry is changed after its construction, by
  the two \<^verbatim>\<open>add\<close> calls; these are the only method calls of the cells and of the
  launch loop, and \<open>run_task\<close> calls a method only on the optimizer. And the records are
  kept for later use: at the end of the notebook each one is still bound to its global
  name, the registry, the network parameters and the initial configuration have been
  handed to \<^verbatim>\<open>LoopScenario\<close>, the same objects are stored once more in
  \<^verbatim>\<open>pass_params\<close>, and \<open>run_task\<close>, whenever it runs, reads \<^verbatim>\<open>pass_params\<close> and hands
  it to \<^verbatim>\<open>GymEnv\<close>. For the experiment launch parameters the claim holds as it is:
  they are the keyword arguments of the one launcher call, which is the last thing the
  notebook does, and the notebook binds nothing but \<open>run_task\<close> and the loop variable
  \<^verbatim>\<open>seed\<close> after the configuration.
\<close>

theorem configuration_records_lifecycle:
  assumes "configure lib anp (fresh g w) = (Inr u, s)"
    and "notebook lib anp (fresh g w) = (r, sn)"
    and "run_task lib' args (fresh (globals sn) w') = (r', s')"
  shows "\<exists>netp ic tl veh scen sumo envp x y rest.
       answers_to ''NetParams'' (trace s) = [netp] \<and> globals s ''net_params'' = Some netp
     \<and> answers_to ''InitialConfig'' (trace s) = [ic] \<and> globals s ''initial_config'' = Some ic
     \<and> answers_to ''VehicleParams'' (trace s) = [veh] \<and> globals s ''vehicles'' = Some veh
     \<and> answers_to ''EnvParams'' (trace s) = [envp] \<and> globals s ''env_params'' = Some envp
     \<and> method_events (trace s) = [(veh, ''add''), (veh, ''add'')]
     \<and> last (upto_call ''VehicleParams'' (trace s)) = (Call ''VehicleParams'' [] [], Inr veh)
     \<and> registry veh (upto_call ''VehicleParams'' (trace s)) = []
     \<and> length (registry veh (trace s)) = 2
     \<and> calls_to ''LoopScenario'' (trace s) =
          [([], [(''name'', PStr ''ring_example''), (''vehicles'', veh), (''net_params'', netp),
                 (''initial_config'', ic), (''traffic_lights'', tl)])]
     \<and> globals s ''pass_params'' =
          Some (PTuple [PStr ''WaveAttenuationPOEnv'', sumo, veh, envp, netp, ic, scen])
     \<and> trace sn =
          trace s @
          [(Call ''run_experiment_lite'' [PFun ''run_task'']
              [(''n_parallel'', PInt 1), (''snapshot_mode'', PStr ''all''),
               (''seed'', PInt 5), (''mode'', PStr ''local''),
               (''exp_prefix'', PStr ''training_example'')], x)]
     \<and> method_events (trace sn) = [(veh, ''add''), (veh, ''add'')]
     \<and> globals sn = (globals s)(''run_task'' \<mapsto> PFun ''run_task'', ''seed'' \<mapsto> PInt 5)
     \<and> globals sn ''net_params'' = Some netp \<and> globals sn ''initial_config'' = Some ic
     \<and> globals sn ''vehicles'' = Some veh \<and> globals sn ''env_params'' = Some envp
     \<and> globals sn ''pass_params'' =
          Some (PTuple [PStr ''WaveAttenuationPOEnv'', sumo, veh, envp, netp, ic, scen])
     \<and> trace s' =
          (Call ''GymEnv'' [PStr ''WaveAttenuationPOEnv'']
             [(''record_video'', PBool False),
              (''register_params'',
                 PTuple [PStr ''WaveAttenuationPOEnv'', sumo, veh, envp, netp, ic, scen])], y)
          # rest
     \<and> method_events (trace s') = map (\<lambda>a. (a, ''train'')) (answers_to ''TRPO'' (trace s'))"
proof -
  from configure_success [OF assms(1)] obtain netp ic tl veh a1 a2 scen sumo envp names pr where
    tr: "trace s =
       [(Call ''NetParams'' [] [(''additional_params'', anp)], Inr netp),
        (Call ''InitialConfig'' [] [(''spacing'', PStr ''uniform''), (''perturbation'', PInt 1)], Inr ic),
        (Call ''TrafficLightParams'' [] [], Inr tl),
        (Call ''VehicleParams'' [] [], Inr veh),
        (Method veh ''add'' [PStr ''human'']
           [(''acceleration_controller'', PTuple [PName ''IDMController'', PDict []]),
            (''routing_controller'', PTuple [PName ''ContinuousRouter'', PDict []]),
            (''num_vehicles'', PInt 21)], Inr a1),
        (Method veh ''add'' []
           [(''veh_id'', PStr ''rl''),
            (''acceleration_controller'', PTuple [PName ''RLController'', PDict []]),
            (''routing_controller'', PTuple [PName ''ContinuousRouter'', PDict []]),
            (''num_vehicles'', PInt 1)], Inr a2),
        (Call ''LoopScenario'' []
           [(''name'', PStr ''ring_example''), (''vehicles'', veh), (''net_params'', netp),
            (''initial_config'', ic), (''traffic_lights'', tl)], Inr scen),
        (Call ''SumoParams'' [] [(''sim_step'', PFloat ''0.1''), (''render'', PBool False)], Inr sumo),
        (Call ''EnvParams'' []
           [(''horizon'', PInt 100),
            (''additional_params'',
               PDict [(''max_accel'', PInt 1), (''max_decel'', PInt 1),
                      (''ring_length'', PList [PInt 220, PInt 270])])], Inr envp),
        (GetAttr (PName ''flowenvs'') ''__all__'', Inr names),
        (Call ''print'' [names] [], Inr pr)]" and
    gl: "globals s = g(''name'' \<mapsto> PStr ''training_example'', ''net_params'' \<mapsto> netp,
         ''initial_config'' \<mapsto> ic, ''traffic_lights'' \<mapsto> tl, ''vehicles'' \<mapsto> veh,
         ''scenario'' \<mapsto> scen, ''sumo_params'' \<mapsto> sumo, ''env_params'' \<mapsto> envp,
         ''env_name'' \<mapsto> PStr ''WaveAttenuationPOEnv'',
         ''pass_params'' \<mapsto> PTuple [PStr ''WaveAttenuationPOEnv'', sumo, veh, envp, netp, ic, scen])"
    by blast
  from notebook_after_configure [OF assms(1) assms(2)] obtain x where
    trn: "trace sn =
            trace s @
            [(Call ''run_experiment_lite'' [PFun ''run_task'']
                [(''n_parallel'', PInt 1), (''snapshot_mode'', PStr ''all''),
                 (''seed'', PInt 5), (''mode'', PStr ''local''),
                 (''exp_prefix'', PStr ''training_example'')], x)]" and
    gln: "globals sn = (globals s)(''run_task'' \<mapsto> PFun ''run_task'', ''seed'' \<mapsto> PInt 5)"
    by blast
  have en: "globals sn ''env_name'' = Some (PStr ''WaveAttenuationPOEnv'')"
    and pp: "globals sn ''pass_params'' =
          Some (PTuple [PStr ''WaveAttenuationPOEnv'', sumo, veh, envp, netp, ic, scen])"
    by (simp_all add: gln gl)
  from run_task_first_call [OF en pp assms(3)] obtain y rest where
    trt: "trace s' =
          (Call ''GymEnv'' [PStr ''WaveAttenuationPOEnv'']
             [(''record_video'', PBool False),
              (''register_params'',
                 PTuple [PStr ''WaveAttenuationPOEnv'', sumo, veh, envp, netp, ic, scen])], y)
          # rest" and
    met: "method_events (trace s') = map (\<lambda>a. (a, ''train'')) (answers_to ''TRPO'' (trace s'))"
    by blast
  have mes: "method_events (trace s) = [(veh, ''add''), (veh, ''add'')]"
    by (simp add: tr method_events_def)
  have men: "method_events (trace sn) = [(veh, ''add''), (veh, ''add'')]"
    unfolding trn method_events_append mes by (simp add: method_events_def)
  have cfg: "answers_to ''NetParams'' (trace s) = [netp] \<and> globals s ''net_params'' = Some netp
     \<and> answers_to ''InitialConfig'' (trace s) = [ic] \<and> globals s ''initial_config'' = Some ic
     \<and> answers_to ''VehicleParams'' (trace s) = [veh] \<and> globals s ''vehicles'' = Some veh
     \<and> answers_to ''EnvParams'' (trace s) = [envp] \<and> globals s ''env_params'' = Some envp
     \<and> last (upto_call ''VehicleParams'' (trace s)) = (Call ''VehicleParams'' [] [], Inr veh)
     \<and> registry veh (upto_call ''VehicleParams'' (trace s)) = []
     \<and> length (registry veh (trace s)) = 2
     \<and> calls_to ''LoopScenario'' (trace s) =
          [([], [(''name'', PStr ''ring_example''), (''vehicles'', veh), (''net_params'', netp),
                 (''initial_config'', ic), (''traffic_lights'', tl)])]
     \<and> globals s ''pass_params'' =
          Some (PTuple [PStr ''WaveAttenuationPOEnv'', sumo, veh, envp, netp, ic, scen])"
    by (simp add: tr gl observers)
  have kept: "globals sn ''net_params'' = Some netp \<and> globals sn ''initial_config'' = Some ic
     \<and> globals sn ''vehicles'' = Some veh \<and> globals sn ''env_params'' = Some envp"
    by (simp add: gln gl)
  from cfg mes trn men gln kept pp trt met show ?thesis
    by blast
qed

theorem configuration_records_lifecycle_witness:
  "configure (demo_lib (PInt 100)) example_net_params (fresh Map.empty 0)
     = (Inr (), configured (PInt 100))
   \<and> notebook (demo_lib (PInt 100)) example_net_params (fresh Map.empty 0)
     = (Inr (), launched (PInt 100))
   \<and> run_task (demo_lib (PInt 100)) []
       (fresh (globals (launched (PInt 100))) (world (launched (PInt 100))))
     = (Inr PNone, snd (launched_task (PInt 100)))
   \<and> (\<exists>netp ic tl veh scen sumo envp x y rest.
       answers_to ''NetParams'' (trace (configured (PInt 100))) = [netp]
     \<and> globals (configured (PInt 100)) ''net_params'' = Some netp
     \<and> answers_to ''InitialConfig'' (trace (configured (PInt 100))) = [ic]
     \<and> globals (configured (PInt 100)) ''initial_config'' = Some ic
     \<and> answers_to ''VehicleParams'' (trace (configured (PInt 100))) = [veh]
     \<and> globals (configured (PInt 100)) ''vehicles'' = Some veh
     \<and> answers_to ''EnvParams'' (trace (configured (PInt 100))) = [envp]
     \<and> globals (configured (PInt 100)) ''env_params'' = Some envp
     \<and> method_events (trace (configured (PInt 100))) = [(veh, ''add''), (veh, ''add'')]
     \<and> last (upto_call ''VehicleParams'' (trace (configured (PInt 100))))
         = (Call ''VehicleParams'' [] [], Inr veh)
     \<and> registry veh (upto_call ''VehicleParams'' (trace (configured (PInt 100)))) = []
     \<and> length (registry veh (trace (configured (PInt 100)))) = 2
     \<and> calls_to ''LoopScenario'' (trace (configured (PInt 100))) =
          [([], [(''name'', PStr ''ring_example''), (''vehicles'', veh), (''net_params'', netp),
                 (''initial_config'', ic), (''traffic_lights'', tl)])]
     \<and> globals (configured (PInt 100)) ''pass_params'' =
          Some (PTuple [PStr ''WaveAttenuationPOEnv'', sumo, veh, envp, netp, ic, scen])
     \<and> trace (launched (PInt 100)) =
          trace (configured (PInt 100)) @
          [(Call ''run_experiment_lite'' [PFun ''run_task'']
              [(''n_parallel'', PInt 1), (''snapshot_mode'', PStr ''all''),
               (''seed'', PInt 5), (''mode'', PStr ''local''),
               (''exp_prefix'', PStr ''training_example'')], x)]
     \<and> method_events (trace (launched (PInt 100))) = [(veh, ''add''), (veh, ''add'')]
     \<and> globals (launched (PInt 100)) =
          (globals (configured (PInt 100)))
            (''run_task'' \<mapsto> PFun ''run_task'', ''seed'' \<mapsto> PInt 5)
     \<and> globals (launched (PInt 100)) ''net_params'' = Some netp
     \<and> globals (launched (PInt 100)) ''initial_config'' = Some ic
     \<and> globals (launched (PInt 100)) ''vehicles'' = Some veh
     \<and> globals (launched (PInt 100)) ''env_params'' = Some envp
     \<and> globals (launched (PInt 100)) ''pass_params'' =
          Some (PTuple [PStr ''WaveAttenuationPOEnv'', sumo, veh, envp, netp, ic, scen])
     \<and> trace (snd (launched_task (PInt 100))) =
          (Call ''GymEnv'' [PStr ''WaveAttenuationPOEnv'']
             [(''record_video'', PBool False),
              (''register_params'',
                 PTuple [PStr ''WaveAttenuationPOEnv'', sumo, veh, envp, netp, ic, scen])], y)
          # rest
     \<and> method_events (trace (snd (launched_task (PInt 100))))
         = map (\<lambda>a. (a, ''train'')) (answers_to ''TRPO'' (trace (snd (launched_task (PInt 100))))))"
  by (rule conjI [OF configured_run conjI [OF notebook_demo conjI [OF launched_task_run
        configuration_records_lifecycle [OF configured_run notebook_demo launched_task_run]]]])

text \<open>
  Against the demonstration library the registry is the object 3. It is empty when
  \<^verbatim>\<open>VehicleParams()\<close> returns and holds two entries at the end; it is passed to
  \<^verbatim>\<open>LoopScenario\<close>, stays bound to \<^verbatim>\<open>vehicles\<close>, and reaches \<^verbatim>\<open>GymEnv\<close> inside
  \<^verbatim>\<open>pass_params\<close> when \<open>run_task\<close> runs later.
\<close>

theorem configuration_records_lifecycle_counterexample:
  "last (upto_call ''VehicleParams'' (trace (configured (PInt 100)))) = (Call ''VehicleParams'' [] [], Inr (PObj 3))
   \<and> registry (PObj 3) (upto_call ''VehicleParams'' (trace (configured (PInt 100)))) = []
   \<and> length (registry (PObj 3) (trace (configured (PInt 100)))) = 2
   \<and> map (\<lambda>c. map_of (snd c) ''vehicles'') (calls_to ''LoopScenario'' (trace (configured (PInt 100))))
       = [Some (PObj 3)]
   \<and> globals (configured (PInt 100)) ''vehicles'' = Some (PObj 3)
   \<and> map (\<lambda>c. map_of (snd c) ''register_params'')
        (calls_to ''GymEnv'' (trace (snd (demo_task (PInt 100)))))
       = [Some (PTuple [PStr ''WaveAttenuationPOEnv'', PObj 5, PObj 3, PObj 6, PObj 0, PObj 1,
            PObj 4])]"
  by (simp add: demo_task_trace configured_globals observers)
    (simp add: configured_def configure_demo observers)

section \<open>What \<open>run_task\<close> does\<close>

text \<open>
  C3. Inside \<open>run_task\<close> the steps come in this order: an environment is made by
  \<^verbatim>\<open>GymEnv\<close> from the name \<^verbatim>\<open>"WaveAttenuationPOEnv"\<close>, given as a string together with
  the configuration tuple \<^verbatim>\<open>pass_params\<close>; the environment is wrapped by
  \<^verbatim>\<open>normalize\<close>; a policy and a baseline are built from the wrapped environment's
  \<^verbatim>\<open>spec\<close>; the optimizer is built from the three with \<^verbatim>\<open>n_itr = 1\<close>, and its
  \<^verbatim>\<open>train\<close> method is called. (Resolving the name against the registry of
  environments is done by the library.)
\<close>

theorem run_task_order:
  assumes "configure lib anp (fresh g w) = (Inr u, s)"
    and "run_task lib args (fresh (globals s) w') = (Inr v, s')"
  shows "\<exists>sumo veh envp netp ic scen env0 h env sp1 pol sp2 bl algo tr.
     globals s ''sumo_params'' = Some sumo \<and> globals s ''vehicles'' = Some veh \<and>
     globals s ''env_params'' = Some envp \<and> globals s ''net_params'' = Some netp \<and>
     globals s ''initial_config'' = Some ic \<and> globals s ''scenario'' = Some scen \<and>
     trace s' =
       [(Call ''GymEnv'' [PStr ''WaveAttenuationPOEnv'']
           [(''record_video'', PBool False),
            (''register_params'',
               PTuple [PStr ''WaveAttenuationPOEnv'', sumo, veh, envp, netp, ic, scen])],
         Inr env0),
        (GetAttr env0 ''horizon'', Inr h),
        (Call ''normalize'' [env0] [], Inr env),
        (GetAttr env ''spec'', Inr sp1),
        (Call ''GaussianMLPPolicy'' []
           [(''env_spec'', sp1), (''hidden_sizes'', PTuple [PInt 32, PInt 32])], Inr pol),
        (GetAttr env ''spec'', Inr sp2),
        (Call ''LinearFeatureBaseline'' [] [(''env_spec'', sp2)], Inr bl),
        (Call ''TRPO'' []
           [(''env'', env), (''policy'', pol), (''baseline'', bl),
            (''batch_size'', PInt 1000), (''max_path_length'', h),
            (''discount'', PFloat ''0.999''), (''n_itr'', PInt 1)], Inr algo),
        (Method algo ''train'' [] [], Inr tr)]"
  using configure_success [OF assms(1)] run_task_success [OF assms(2)]
  by clarsimp

theorem run_task_order_witness:
  "configure (demo_lib (PInt 100)) example_net_params (fresh Map.empty 0)
     = (Inr (), configured (PInt 100))
   \<and> run_task (demo_lib (PInt 100)) []
       (fresh (globals (configured (PInt 100))) (world (configured (PInt 100))))
     = (Inr PNone, snd (demo_task (PInt 100)))
   \<and> (\<exists>sumo veh envp netp ic scen env0 h env sp1 pol sp2 bl algo tr.
     globals (configured (PInt 100)) ''sumo_params'' = Some sumo \<and>
     globals (configured (PInt 100)) ''vehicles'' = Some veh \<and>
     globals (configured (PInt 100)) ''env_params'' = Some envp \<and>
     globals (configured (PInt 100)) ''net_params'' = Some netp \<and>
     globals (configured (PInt 100)) ''initial_config'' = Some ic \<and>
     globals (configured (PInt 100)) ''scenario'' = Some scen \<and>
     trace (snd (demo_task (PInt 100))) =
       [(Call ''GymEnv'' [PStr ''WaveAttenuationPOEnv'']
           [(''record_video'', PBool False),
            (''register_params'',
               PTuple [PStr ''WaveAttenuationPOEnv'', sumo, veh, envp, netp, ic, scen])],
         Inr env0),
        (GetAttr env0 ''horizon'', Inr h),
        (Call ''normalize'' [env0] [], Inr env),
        (GetAttr env ''spec'', Inr sp1),
        (Call ''GaussianMLPPolicy'' []
           [(''env_spec'', sp1), (''hidden_sizes'', PTuple [PInt 32, PInt 32])], Inr pol),
        (GetAttr env ''spec'', Inr sp2),
        (Call ''LinearFeatureBaseline'' [] [(''env_spec'', sp2)], Inr bl),
        (Call ''TRPO'' []
           [(''env'', env), (''policy'', pol), (''baseline'', bl),
            (''batch_size'', PInt 1000), (''max_path_length'', h),
            (''discount'', PFloat ''0.999''), (''n_itr'', PInt 1)], Inr algo),
        (Method algo ''train'' [] [], Inr tr)])"
  by (rule conjI [OF configured_run
        conjI [OF demo_task_run run_task_order [OF configured_run demo_task_run]]])

text \<open>
  C9. In \<open>run_task\<close> the horizon is read from the environment object before the
  normalization wrapper is applied, and the value read is the one passed to the optimizer
  as \<^verbatim>\<open>max_path_length\<close>: it comes from the environment that was constructed and is no
  literal of the notebook. Whenever the optimizer is called, the trace begins with the
  construction of the environment, the read of its \<^verbatim>\<open>horizon\<close> and only then the call
  of \<^verbatim>\<open>normalize\<close>, and \<^verbatim>\<open>max_path_length\<close> is the answer to that read.
\<close>

theorem horizon_read_before_normalize:
  assumes "run_task lib args (fresh g w) = (r, s')"
    and "(Call ''TRPO'' a kw, x) \<in> set (trace s')"
  shows "\<exists>en pp env0 h env rest.
           trace s' =
             (Call ''GymEnv'' [en] [(''record_video'', PBool False), (''register_params'', pp)],
                Inr env0)
             # (GetAttr env0 ''horizon'', Inr h)
             # (Call ''normalize'' [env0] [], Inr env) # rest
         \<and> map_of kw ''max_path_length'' = Some h"
  using assms
  by (auto simp: run_task_def step fresh_def split: option.splits sum.splits prod.splits)

theorem horizon_read_before_normalize_witness:
  "run_task (demo_lib (PInt 100)) []
       (fresh (globals (configured (PInt 100))) (world (configured (PInt 100))))
     = (Inr PNone, snd (demo_task (PInt 100)))
   \<and> (Call ''TRPO'' []
        [(''env'', PObj 9), (''policy'', PObj 11), (''baseline'', PObj 13),
         (''batch_size'', PInt 1000), (''max_path_length'', PInt 100),
         (''discount'', PFloat ''0.999''), (''n_itr'', PInt 1)], Inr (PObj 14))
       \<in> set (trace (snd (demo_task (PInt 100))))
   \<and> (\<exists>en pp env0 h env rest.
           trace (snd (demo_task (PInt 100))) =
             (Call ''GymEnv'' [en] [(''record_video'', PBool False), (''register_params'', pp)],
                Inr env0)
             # (GetAttr env0 ''horizon'', Inr h)
             # (Call ''normalize'' [env0] [], Inr env) # rest
         \<and> map_of [(''env'', PObj 9), (''policy'', PObj 11), (''baseline'', PObj 13),
                    (''batch_size'', PInt 1000), (''max_path_length'', PInt 100),
                    (''discount'', PFloat ''0.999''), (''n_itr'', PInt 1)] ''max_path_length''
             = Some h)"
  by (rule conjI [OF demo_task_run
        conjI [OF demo_task_trpo horizon_read_before_normalize [OF demo_task_run demo_task_trpo]]])

text \<open>
  C1. The claim has \<open>run_task\<close> call the optimizer with fixed, literal arguments only.
  The literal ones are \<^verbatim>\<open>batch_size = 1000\<close>, \<^verbatim>\<open>discount = 0.999\<close> and \<^verbatim>\<open>n_itr = 1\<close>, and
  the policy handed over was built with the literal hidden layer sizes (32, 32). The
  other arguments are no literals: \<^verbatim>\<open>env\<close>, \<^verbatim>\<open>policy\<close> and \<^verbatim>\<open>baseline\<close> are the objects
  that \<^verbatim>\<open>normalize\<close>, \<^verbatim>\<open>GaussianMLPPolicy\<close> and \<^verbatim>\<open>LinearFeatureBaseline\<close> answered with,
  and \<^verbatim>\<open>max_path_length\<close> is the horizon read from the environment.
\<close>

theorem trpo_arguments:
  assumes "run_task lib args (fresh g w) = (r, s')"
    and "(Call ''TRPO'' a kw, x) \<in> set (trace s')"
  shows "\<exists>env0 env sp pol sp' bl h.
           a = []
         \<and> kw = [(''env'', env), (''policy'', pol), (''baseline'', bl),
                 (''batch_size'', PInt 1000), (''max_path_length'', h),
                 (''discount'', PFloat ''0.999''), (''n_itr'', PInt 1)]
         \<and> (Call ''normalize'' [env0] [], Inr env) \<in> set (trace s')
         \<and> (Call ''GaussianMLPPolicy'' []
               [(''env_spec'', sp), (''hidden_sizes'', PTuple [PInt 32, PInt 32])], Inr pol)
             \<in> set (trace s')
         \<and> (Call ''LinearFeatureBaseline'' [] [(''env_spec'', sp')], Inr bl) \<in> set (trace s')
         \<and> (GetAttr env0 ''horizon'', Inr h) \<in> set (trace s')"
  using assms
  by (auto simp: run_task_def step fresh_def split: option.splits sum.splits prod.splits)

theorem trpo_arguments_witness:
  "run_task (demo_lib (PInt 100)) []
       (fresh (globals (configured (PInt 100))) (world (configured (PInt 100))))
     = (Inr PNone, snd (demo_task (PInt 100)))
   \<and> (Call ''TRPO'' []
        [(''env'', PObj 9), (''policy'', PObj 11), (''baseline'', PObj 13),
         (''batch_size'', PInt 1000), (''max_path_length'', PInt 100),
         (''discount'', PFloat ''0.999''), (''n_itr'', PInt 1)], Inr (PObj 14))
       \<in> set (trace (snd (demo_task (PInt 100))))
   \<and> (\<exists>env0 env sp pol sp' bl h.
           ([] :: pyval list) = []
         \<and> [(''env'', PObj 9), (''policy'', PObj 11), (''baseline'', PObj 13),
            (''batch_size'', PInt 1000), (''max_path_length'', PInt 100),
            (''discount'', PFloat ''0.999''), (''n_itr'', PInt 1)]
             = [(''env'', env), (''policy'', pol), (''baseline'', bl),
                 (''batch_size'', PInt 1000), (''max_path_length'', h),
                 (''discount'', PFloat ''0.999''), (''n_itr'', PInt 1)]
         \<and> (Call ''normalize'' [env0] [], Inr env) \<in> set (trace (snd (demo_task (PInt 100))))
         \<and> (Call ''GaussianMLPPolicy'' []
               [(''env_spec'', sp), (''hidden_sizes'', PTuple [PInt 32, PInt 32])], Inr pol)
             \<in> set (trace (snd (demo_task (PInt 100))))
         \<and> (Call ''LinearFeatureBaseline'' [] [(''env_spec'', sp')], Inr bl)
             \<in> set (trace (snd (demo_task (PInt 100))))
         \<and> (GetAttr env0 ''horizon'', Inr h) \<in> set (trace (snd (demo_task (PInt 100)))))"
  by (rule conjI [OF demo_task_run
        conjI [OF demo_task_trpo trpo_arguments [OF demo_task_run demo_task_trpo]]])

text \<open>
  Two libraries that differ in the horizon of the environment only: the optimizer gets
  100 from the one and 50 from the other as \<^verbatim>\<open>max_path_length\<close>, and its environment
  is an object made by the library.
\<close>

theorem trpo_arguments_counterexample:
  "map (\<lambda>c. map_of (snd c) ''max_path_length'') (calls_to ''TRPO'' (trace (snd (demo_task (PInt 100)))))
     = [Some (PInt 100)]
   \<and> map (\<lambda>c. map_of (snd c) ''max_path_length'') (calls_to ''TRPO'' (trace (snd (demo_task (PInt 50)))))
     = [Some (PInt 50)]
   \<and> map (\<lambda>c. map_of (snd c) ''env'') (calls_to ''TRPO'' (trace (snd (demo_task (PInt 100)))))
     = [Some (PObj 9)]"
  by (simp add: demo_task_trace observers)

section \<open>The launch loop\<close>

text \<open>
  The loop makes one launcher call for each seed of any list, in order, as long as no
  call raises.
\<close>

lemma launch_calls:
  assumes "launch lib seeds s = (Inr u, s')" and "globals s ''run_task'' = Some rt"
  shows "map fst (trace s') =
           map fst (trace s) @
           map (\<lambda>seed. Call ''run_experiment_lite'' [rt]
                  [(''n_parallel'', PInt 1), (''snapshot_mode'', PStr ''all''),
                   (''seed'', PInt seed), (''mode'', PStr ''local''),
                   (''exp_prefix'', PStr ''training_example'')]) seeds"
  using assms
proof (induction seeds arbitrary: s)
  case Nil
  then show ?case
    by simp
next
  case (Cons seed seeds)
  from Cons.prems obtain s1 where
    once: "py_bind (store ''seed'' (PInt seed)) (\<lambda>u. launch_once lib) s = (Inr (), s1)" and
    rest: "launch lib seeds s1 = (Inr u, s')"
    by (auto split: prod.splits sum.splits)
  from once Cons.prems(2) have
    t1: "map fst (trace s1) = map fst (trace s) @
           [Call ''run_experiment_lite'' [rt]
              [(''n_parallel'', PInt 1), (''snapshot_mode'', PStr ''all''),
               (''seed'', PInt seed), (''mode'', PStr ''local''),
               (''exp_prefix'', PStr ''training_example'')]]" and
    g1: "globals s1 ''run_task'' = Some rt"
    by (auto simp: launch_once_def step split: prod.splits sum.splits)
  from Cons.IH [OF rest g1] t1 show ?case
    by simp
qed

text \<open>
  C6. For every seed in the seed list the launcher \<^verbatim>\<open>run_experiment_lite\<close> is called
  exactly once with that seed, and each call passes the function \<open>run_task\<close> and exactly
  the launch parameters \<^verbatim>\<open>n_parallel\<close> (1), \<^verbatim>\<open>snapshot_mode\<close> ("all"), \<^verbatim>\<open>seed\<close>,
  \<^verbatim>\<open>mode\<close> ("local") and \<^verbatim>\<open>exp_prefix\<close> ("training_example"). Once the configuration
  cells have run, the rest of the notebook makes this one library call, whatever the
  launcher answers.
\<close>

theorem launch_once_per_seed:
  assumes "configure lib anp (fresh g w) = (Inr u, s1)"
  shows "(\<exists>x. trace (snd (notebook lib anp (fresh g w))) =
            trace s1 @
            [(Call ''run_experiment_lite'' [PFun ''run_task'']
                [(''n_parallel'', PInt 1), (''snapshot_mode'', PStr ''all''),
                 (''seed'', PInt 5), (''mode'', PStr ''local''),
                 (''exp_prefix'', PStr ''training_example'')], x)])
     \<and> calls_to ''run_experiment_lite'' (trace (snd (notebook lib anp (fresh g w)))) =
          [([PFun ''run_task''],
            [(''n_parallel'', PInt 1), (''snapshot_mode'', PStr ''all''),
             (''seed'', PInt 5), (''mode'', PStr ''local''),
             (''exp_prefix'', PStr ''training_example'')])]
     \<and> (\<forall>seed \<in> set seed_list.
           length (filter (\<lambda>c. map_of (snd c) ''seed'' = Some (PInt seed))
             (calls_to ''run_experiment_lite'' (trace (snd (notebook lib anp (fresh g w)))))) = 1)"
proof -
  have "\<exists>x. trace (snd (notebook lib anp (fresh g w))) =
            trace s1 @
            [(Call ''run_experiment_lite'' [PFun ''run_task'']
                [(''n_parallel'', PInt 1), (''snapshot_mode'', PStr ''all''),
                 (''seed'', PInt 5), (''mode'', PStr ''local''),
                 (''exp_prefix'', PStr ''training_example'')], x)]"
    using assms
    by (auto simp: notebook_def cell_def_run_task_def cell_launch_def seed_list_def
        launch_once_def step split: sum.splits prod.splits)
  then obtain x where tr: "trace (snd (notebook lib anp (fresh g w))) =
            trace s1 @
            [(Call ''run_experiment_lite'' [PFun ''run_task'']
                [(''n_parallel'', PInt 1), (''snapshot_mode'', PStr ''all''),
                 (''seed'', PInt 5), (''mode'', PStr ''local''),
                 (''exp_prefix'', PStr ''training_example'')], x)]"
    by blast
  from configure_success [OF assms] have none: "calls_to ''run_experiment_lite'' (trace s1) = []"
    by (clarsimp simp: observers)
  have "calls_to ''run_experiment_lite'' (trace (snd (notebook lib anp (fresh g w)))) =
          [([PFun ''run_task''],
            [(''n_parallel'', PInt 1), (''snapshot_mode'', PStr ''all''),
             (''seed'', PInt 5), (''mode'', PStr ''local''),
             (''exp_prefix'', PStr ''training_example'')])]"
    unfolding tr calls_to_append none by (simp add: calls_to_def)
  with tr show ?thesis
    by (simp add: seed_list_def)
qed

theorem launch_once_per_seed_witness:
  "configure (demo_lib (PInt 100)) example_net_params (fresh Map.empty 0)
     = (Inr (), configured (PInt 100))
   \<and> calls_to ''run_experiment_lite''
        (trace (snd (notebook (demo_lib (PInt 100)) example_net_params (fresh Map.empty 0)))) =
          [([PFun ''run_task''],
            [(''n_parallel'', PInt 1), (''snapshot_mode'', PStr ''all''),
             (''seed'', PInt 5), (''mode'', PStr ''local''),
             (''exp_prefix'', PStr ''training_example'')])]
   \<and> length (filter (\<lambda>c. map_of (snd c) ''seed'' = Some (PInt 5))
        (calls_to ''run_experiment_lite''
          (trace (snd (notebook (demo_lib (PInt 100)) example_net_params (fresh Map.empty 0))))))
      = 1"
  using configured_run [of "PInt 100"] launch_once_per_seed [OF configured_run, of "PInt 100"]
  by (simp add: seed_list_def)

section \<open>Errors\<close>

text \<open>
  C7. Nothing in the notebook surfaces, catches or translates a failure, neither
  \<open>run_task\<close> nor the launch loop nor the cells themselves: when a library call made
  by any of them raises an error, that call is the last thing the program does, and the
  program raises the same error to its caller.
\<close>

theorem library_errors_propagate:
  "(\<forall>c e. (c, Inl e) \<in> set (trace (snd (run_task lib args (fresh g w)))) \<longrightarrow>
      fst (run_task lib args (fresh g w)) = Inl e
      \<and> last (trace (snd (run_task lib args (fresh g w)))) = (c, Inl e))
   \<and> (\<forall>c e. (c, Inl e) \<in> set (trace (snd (launch lib seeds (fresh g w)))) \<longrightarrow>
      fst (launch lib seeds (fresh g w)) = Inl e
      \<and> last (trace (snd (launch lib seeds (fresh g w)))) = (c, Inl e))
   \<and> (\<forall>c e. (c, Inl e) \<in> set (trace (snd (notebook lib anp (fresh g w)))) \<longrightarrow>
      fst (notebook lib anp (fresh g w)) = Inl e
      \<and> last (trace (snd (notebook lib anp (fresh g w)))) = (c, Inl e))"
proof (intro conjI allI impI)
  fix c e
  assume "(c, Inl e) \<in> set (trace (snd (run_task lib args (fresh g w))))"
  from propagates_fresh [OF propagates_run_task this]
  show "fst (run_task lib args (fresh g w)) = Inl e"
    and "last (trace (snd (run_task lib args (fresh g w)))) = (c, Inl e)"
    by simp_all
next
  fix c e
  assume "(c, Inl e) \<in> set (trace (snd (launch lib seeds (fresh g w))))"
  from propagates_fresh [OF propagates_launch this]
  show "fst (launch lib seeds (fresh g w)) = Inl e"
    and "last (trace (snd (launch lib seeds (fresh g w)))) = (c, Inl e)"
    by simp_all
next
  fix c e
  assume "(c, Inl e) \<in> set (trace (snd (notebook lib anp (fresh g w))))"
  from propagates_fresh [OF propagates_notebook this]
  show "fst (notebook lib anp (fresh g w)) = Inl e"
    and "last (trace (snd (notebook lib anp (fresh g w)))) = (c, Inl e)"
    by simp_all
qed

text \<open>
  A library whose \<^verbatim>\<open>GymEnv\<close> does not know the environment name, one whose launcher
  fails, and one whose \<^verbatim>\<open>LoopScenario\<close> rejects its parameters.
\<close>

theorem library_errors_propagate_witness:
  "(Call ''GymEnv'' [PStr ''WaveAttenuationPOEnv'']
       [(''record_video'', PBool False),
        (''register_params'',
           PTuple [PStr ''WaveAttenuationPOEnv'', PObj 5, PObj 3, PObj 6, PObj 0, PObj 1, PObj 4])],
     Inl (LibError ''unknown environment''))
     \<in> set (trace (snd (run_task (failing_lib ''GymEnv'' (LibError ''unknown environment'')) []
               (fresh (globals (configured (PInt 100))) 8))))
   \<and> fst (run_task (failing_lib ''GymEnv'' (LibError ''unknown environment'')) []
            (fresh (globals (configured (PInt 100))) 8))
       = Inl (LibError ''unknown environment'')
   \<and> (Call ''run_experiment_lite'' [PFun ''run_task'']
        [(''n_parallel'', PInt 1), (''snapshot_mode'', PStr ''all''),
         (''seed'', PInt 5), (''mode'', PStr ''local''),
         (''exp_prefix'', PStr ''training_example'')],
       Inl (LibError ''launch failed''))
     \<in> set (trace (snd (launch (failing_lib ''run_experiment_lite'' (LibError ''launch failed''))
               seed_list (fresh [''run_task'' \<mapsto> PFun ''run_task''] 0))))
   \<and> fst (launch (failing_lib ''run_experiment_lite'' (LibError ''launch failed''))
            seed_list (fresh [''run_task'' \<mapsto> PFun ''run_task''] 0))
       = Inl (LibError ''launch failed'')
   \<and> (Call ''LoopScenario'' []
        [(''name'', PStr ''ring_example''), (''vehicles'', PObj 3), (''net_params'', PObj 0),
         (''initial_config'', PObj 1), (''traffic_lights'', PObj 2)],
       Inl (LibError ''invalid parameters''))
     \<in> set (trace (snd (notebook (failing_lib ''LoopScenario'' (LibError ''invalid parameters''))
               example_net_params (fresh Map.empty 0))))
   \<and> fst (notebook (failing_lib ''LoopScenario'' (LibError ''invalid parameters''))
            example_net_params (fresh Map.empty 0))
       = Inl (LibError ''invalid parameters'')"
proof -
  have task: "(Call ''GymEnv'' [PStr ''WaveAttenuationPOEnv'']
       [(''record_video'', PBool False),
        (''register_params'',
           PTuple [PStr ''WaveAttenuationPOEnv'', PObj 5, PObj 3, PObj 6, PObj 0, PObj 1, PObj 4])],
     Inl (LibError ''unknown environment''))
     \<in> set (trace (snd (run_task (failing_lib ''GymEnv'' (LibError ''unknown environment'')) []
               (fresh (globals (configured (PInt 100))) 8))))"
    by (simp add: configured_globals run_task_def step fresh_def failing_lib_def)
  have loop: "(Call ''run_experiment_lite'' [PFun ''run_task'']
        [(''n_parallel'', PInt 1), (''snapshot_mode'', PStr ''all''),
         (''seed'', PInt 5), (''mode'', PStr ''local''),
         (''exp_prefix'', PStr ''training_example'')],
       Inl (LibError ''launch failed''))
     \<in> set (trace (snd (launch (failing_lib ''run_experiment_lite'' (LibError ''launch failed''))
               seed_list (fresh [''run_task'' \<mapsto> PFun ''run_task''] 0))))"
    by (simp add: seed_list_def launch_once_def step fresh_def failing_lib_def)
  have scen: "(Call ''LoopScenario'' []
        [(''name'', PStr ''ring_example''), (''vehicles'', PObj 3), (''net_params'', PObj 0),
         (''initial_config'', PObj 1), (''traffic_lights'', PObj 2)],
       Inl (LibError ''invalid parameters''))
     \<in> set (trace (snd (notebook (failing_lib ''LoopScenario'' (LibError ''invalid parameters''))
               example_net_params (fresh Map.empty 0))))"
    by (simp add: notebook_def configure_def cells step fresh_def failing_lib_def demo_lib_def
        eval_nat_numeral)
  from library_errors_propagate
      [where lib = "failing_lib ''GymEnv'' (LibError ''unknown environment'')"
         and args = "[]" and g = "globals (configured (PInt 100))" and w = 8]
    task
  have "fst (run_task (failing_lib ''GymEnv'' (LibError ''unknown environment'')) []
            (fresh (globals (configured (PInt 100))) 8))
       = Inl (LibError ''unknown environment'')"
    by blast
  moreover from library_errors_propagate
      [where lib = "failing_lib ''run_experiment_lite'' (LibError ''launch failed'')"
         and seeds = seed_list and g = "[''run_task'' \<mapsto> PFun ''run_task'']" and w = 0]
    loop
  have "fst (launch (failing_lib ''run_experiment_lite'' (LibError ''launch failed''))
            seed_list (fresh [''run_task'' \<mapsto> PFun ''run_task''] 0))
       = Inl (LibError ''launch failed'')"
    by blast
  moreover from library_errors_propagate
      [where lib = "failing_lib ''LoopScenario'' (LibError ''invalid parameters'')"
         and anp = example_net_params and g = Map.empty and w = 0]
    scen
  have "fst (notebook (failing_lib ''LoopScenario'' (LibError ''invalid parameters''))
            example_net_params (fresh Map.empty 0))
       = Inl (LibError ''invalid parameters'')"
    by blast
  ultimately show ?thesis
    using task loop scen by blast
qed

end
